theory Spec2Isabelle
  imports Main "HOL-Library.Sublist"
begin

section \<open>Strings as the JavaScript code uses them\<close>

text \<open>
  A JavaScript string is a sequence of UTF-16 code units, and \<open>length\<close>, \<open>trim\<close>,
  \<open>includes\<close>, \<open>split\<close> and \<open>substring\<close> all count code units. The model keeps a
  string as a list of characters, one character per code unit, for the code units below
  256 (ASCII and Latin-1); user text with other code units is outside the model. The
  pictographs and typographic symbols of the canned replies lie outside that range;
  they occur in constant reply texts only and are written as named constants.
\<close>

definition upperCaseLetters :: string where
  "upperCaseLetters = ''ABCDEFGHIJKLMNOPQRSTUVWXYZ'' @
     [CHR 0xC0, CHR 0xC1, CHR 0xC2, CHR 0xC3, CHR 0xC4, CHR 0xC5, CHR 0xC6, CHR 0xC7,
      CHR 0xC8, CHR 0xC9, CHR 0xCA, CHR 0xCB, CHR 0xCC, CHR 0xCD, CHR 0xCE, CHR 0xCF,
      CHR 0xD0, CHR 0xD1, CHR 0xD2, CHR 0xD3, CHR 0xD4, CHR 0xD5, CHR 0xD6,
      CHR 0xD8, CHR 0xD9, CHR 0xDA, CHR 0xDB, CHR 0xDC, CHR 0xDD, CHR 0xDE]"

definition lowerCaseLetters :: string where
  "lowerCaseLetters = ''abcdefghijklmnopqrstuvwxyz'' @
     [CHR 0xE0, CHR 0xE1, CHR 0xE2, CHR 0xE3, CHR 0xE4, CHR 0xE5, CHR 0xE6, CHR 0xE7,
      CHR 0xE8, CHR 0xE9, CHR 0xEA, CHR 0xEB, CHR 0xEC, CHR 0xED, CHR 0xEE, CHR 0xEF,
      CHR 0xF0, CHR 0xF1, CHR 0xF2, CHR 0xF3, CHR 0xF4, CHR 0xF5, CHR 0xF6,
      CHR 0xF8, CHR 0xF9, CHR 0xFA, CHR 0xFB, CHR 0xFC, CHR 0xFD, CHR 0xFE]"

text \<open>\<open>String.prototype.toLowerCase\<close> on one code unit below 256: the letters A to Z and
  the Latin-1 capitals (0xC0 to 0xDE without the multiplication sign 0xD7) move to their
  small letters, every other code unit stays.\<close>

definition toLower :: "char \<Rightarrow> char" where
  "toLower c =
     (case map_of (zip upperCaseLetters lowerCaseLetters) c of Some l \<Rightarrow> l | None \<Rightarrow> c)"

definition toLowerCase :: "string \<Rightarrow> string" where
  "toLowerCase s = map toLower s"

text \<open>\<open>s.includes(k)\<close>: \<open>k\<close> occurs in \<open>s\<close> as a contiguous substring.\<close>

fun str_includes :: "string \<Rightarrow> string \<Rightarrow> bool" where
  "str_includes [] k = (k = [])"
| "str_includes (c # cs) k = (prefix k (c # cs) \<or> str_includes cs k)"

text \<open>The white space and line terminators of ECMAScript below 256: tab, line feed,
  vertical tab, form feed, carriage return, space and no-break space. They are what
  \<open>trim\<close> strips and what \<open>\s\<close> matches.\<close>

definition isWhiteSpace :: "char \<Rightarrow> bool" where
  "isWhiteSpace c \<longleftrightarrow>
     c \<in> set [CHR 0x09, CHR 0x0A, CHR 0x0B, CHR 0x0C, CHR 0x0D, CHR 0x20, CHR 0xA0]"

definition trimStart :: "string \<Rightarrow> string" where
  "trimStart s = dropWhile isWhiteSpace s"

definition trimEnd :: "string \<Rightarrow> string" where
  "trimEnd s = rev (dropWhile isWhiteSpace (rev s))"

definition trim :: "string \<Rightarrow> string" where
  "trim s = trimEnd (trimStart s)"

text \<open>\<open>s.split(sep)\<close> for a one-character separator: the pieces between the
  separators, empty pieces included; the empty string gives one empty piece.\<close>

fun js_split :: "char \<Rightarrow> string \<Rightarrow> string list" where
  "js_split sep [] = [[]]"
| "js_split sep (c # cs) =
     (if c = sep then [] # js_split sep cs
      else (case js_split sep cs of
              [] \<Rightarrow> [[c]]
            | p # ps \<Rightarrow> (c # p) # ps))"

text \<open>\<open>lines.join("\n")\<close>.\<close>

fun joinLines :: "string list \<Rightarrow> string" where
  "joinLines [] = []"
| "joinLines [l] = l"
| "joinLines (l # ls) = l @ [CHR 0x0A] @ joinLines ls"

text \<open>\<open>\w\<close> of a regular expression without the unicode flag: letters, digits, underscore.\<close>

definition isWordChar :: "char \<Rightarrow> bool" where
  "isWordChar c \<longleftrightarrow>
     c \<in> set ''abcdefghijklmnopqrstuvwxyzABCDEFGHIJKLMNOPQRSTUVWXYZ0123456789_''"

section \<open>Regular expressions\<close>

text \<open>
  The regular expressions the code writes down are concatenations, repetitions and
  character classes. They are kept as terms and matched by derivatives: \<open>rx_deriv c r\<close>
  matches what is left of a word of \<open>r\<close> after its first character \<open>c\<close>.
\<close>

datatype rx =
    Never
  | Empty
  | Class "char \<Rightarrow> bool"
  | Alt rx rx
  | Cat rx rx
  | Star rx

fun rx_nullable :: "rx \<Rightarrow> bool" where
  "rx_nullable Never = False"
| "rx_nullable Empty = True"
| "rx_nullable (Class p) = False"
| "rx_nullable (Alt r s) = (rx_nullable r \<or> rx_nullable s)"
| "rx_nullable (Cat r s) = (rx_nullable r \<and> rx_nullable s)"
| "rx_nullable (Star r) = True"

fun rx_deriv :: "char \<Rightarrow> rx \<Rightarrow> rx" where
  "rx_deriv c Never = Never"
| "rx_deriv c Empty = Never"
| "rx_deriv c (Class p) = (if p c then Empty else Never)"
| "rx_deriv c (Alt r s) = Alt (rx_deriv c r) (rx_deriv c s)"
| "rx_deriv c (Cat r s) =
     (if rx_nullable r then Alt (Cat (rx_deriv c r) s) (rx_deriv c s)
      else Cat (rx_deriv c r) s)"
| "rx_deriv c (Star r) = Cat (rx_deriv c r) (Star r)"

text \<open>A pattern anchored at both ends (\<open>/^...$/\<close>) matches the whole text.\<close>

fun rx_matches :: "rx \<Rightarrow> string \<Rightarrow> bool" where
  "rx_matches r [] = rx_nullable r"
| "rx_matches r (c # cs) = rx_matches (rx_deriv c r) cs"

text \<open>An unanchored pattern matches at a position when some prefix of the rest of the
  text is a word of it, and \<open>test\<close> succeeds when it matches at some position.\<close>

fun rx_matches_prefix :: "rx \<Rightarrow> string \<Rightarrow> bool" where
  "rx_matches_prefix r [] = rx_nullable r"
| "rx_matches_prefix r (c # cs) = (rx_nullable r \<or> rx_matches_prefix (rx_deriv c r) cs)"

fun rx_test :: "rx \<Rightarrow> string \<Rightarrow> bool" where
  "rx_test r [] = rx_nullable r"
| "rx_test r (c # cs) = (rx_matches_prefix r (c # cs) \<or> rx_test r cs)"

definition rx_plus :: "rx \<Rightarrow> rx" where
  "rx_plus r = Cat r (Star r)"

text \<open>A literal character under the flag \<open>i\<close>: either case of it.\<close>

definition rx_char_i :: "char \<Rightarrow> rx" where
  "rx_char_i k = Class (\<lambda>c. toLower c = toLower k)"

text \<open>The dot matches every character except the line terminators.\<close>

definition rx_dot :: rx where
  "rx_dot = Class (\<lambda>c. c \<noteq> CHR 0x0A \<and> c \<noteq> CHR 0x0D)"

text \<open>
  \<open>text.replace(re, '')\<close> for a regular expression with the flag \<open>g\<close>: the text is
  scanned from the left; where the expression matches, the match is cut out and the scan
  goes on behind it, elsewhere the character stays. \<open>m\<close> gives the length of the match
  at the head of the rest of the text. An empty match removes nothing and the scan
  moves on by one character.
\<close>

function replace_global :: "(string \<Rightarrow> nat option) \<Rightarrow> string \<Rightarrow> string" where
  "replace_global m [] = []"
| "replace_global m (c # cs) =
     (case m (c # cs) of
        None \<Rightarrow> c # replace_global m cs
      | Some n \<Rightarrow>
          (if n = 0 then c # replace_global m cs
           else replace_global m (drop n (c # cs))))"
  by pat_completeness auto
termination
  by (relation "measure (\<lambda>(m, s). length s)") auto

section \<open>Configuration (config/env.js)\<close>

text \<open>
  The fields of \<open>env\<close> that the modelled functions read. \<open>MD_TELEGRAM_USER_ID\<close> is
  \<open>parseInt\<close> of the variable when it is set and \<open>null\<close> otherwise; \<open>None\<close> stands for
  \<open>null\<close> and for \<open>NaN\<close>, which the code cannot tell apart (both are falsy and equal to
  no user id).
\<close>

record env =
  OWNER_NAME :: string
  CLINIC_NAME :: string
  CITY :: string
  MD_TELEGRAM_USER_ID :: "int option"

text \<open>The values \<open>env\<close> takes when no variable is set.\<close>

definition defaultEnv :: env where
  "defaultEnv =
     \<lparr>OWNER_NAME = ''Dr. Kunle Adesina'',
      CLINIC_NAME = ''Serenity Royale Hospital'',
      CITY = ''Abuja'',
      MD_TELEGRAM_USER_ID = None\<rparr>"

section \<open>Helpers (lib/utils.js)\<close>

definition isAsciiLetter :: "char \<Rightarrow> bool" where
  "isAsciiLetter c \<longleftrightarrow>
     c \<in> set ''abcdefghijklmnopqrstuvwxyzABCDEFGHIJKLMNOPQRSTUVWXYZ''"

definition isDigit :: "char \<Rightarrow> bool" where
  "isDigit c \<longleftrightarrow> c \<in> set ''0123456789''"

definition bookingKeywords :: "string list" where
  "bookingKeywords = [''book'', ''appointment'', ''schedule'', ''visit'']"

text \<open>\<open>/^[a-zA-Z\s]+,\s*[a-zA-Z0-9\s:]+$/\<close>\<close>

definition nameTimePattern :: rx where
  "nameTimePattern =
     Cat (rx_plus (Class (\<lambda>c. isAsciiLetter c \<or> isWhiteSpace c)))
       (Cat (Class (\<lambda>c. c = CHR '',''))
         (Cat (Star (Class isWhiteSpace))
           (rx_plus (Class (\<lambda>c. isAsciiLetter c \<or> isDigit c \<or> isWhiteSpace c \<or> c = CHR '':'')))))"

definition looksLikeBooking :: "string \<Rightarrow> bool" where
  "looksLikeBooking text =
     (if text = [] then False
      else
        (let hasComma = str_includes text '','';
             hasBookingKeyword =
               list_ex (\<lambda>keyword. str_includes (toLowerCase text) keyword) bookingKeywords
         in hasComma \<or> hasBookingKeyword \<or> rx_matches nameTimePattern text))"

text \<open>The object \<open>validateBookingFormat\<close> returns: \<open>{ valid: false }\<close> or
  \<open>{ valid: true, name, timeSlot }\<close>.\<close>

datatype validation = Invalid | Valid string string

fun valid :: "validation \<Rightarrow> bool" where
  "valid Invalid = False"
| "valid (Valid name timeSlot) = True"

definition validateBookingFormat :: "string \<Rightarrow> validation" where
  "validateBookingFormat text =
     (if text = [] then Invalid
      else
        (case js_split (CHR '','') text of
           p0 # p1 # rest \<Rightarrow>
             (let name = trim p0; timeSlot = trim p1
              in if length name > 2 \<and> length timeSlot > 2 then Valid name timeSlot
                 else Invalid)
         | _ \<Rightarrow> Invalid))"

text \<open>The three replacements of \<open>sanitizeText\<close>: \<open>/[<>]/g\<close>, \<open>/javascript:/gi\<close> and
  \<open>/on\w+=/gi\<close>, each as the length of its match at the head of the text. A run of
  \<open>\w+\<close> ends where the word characters end, and \<open>=\<close> is none, so the last
  expression matches exactly when the whole run of word characters behind \<open>on\<close> is not
  empty and is followed by \<open>=\<close>.\<close>

definition matchAngleBracket :: "string \<Rightarrow> nat option" where
  "matchAngleBracket s =
     (case s of
        [] \<Rightarrow> None
      | c # cs \<Rightarrow> if c = CHR ''<'' \<or> c = CHR ''>'' then Some 1 else None)"

definition matchJavascriptProtocol :: "string \<Rightarrow> nat option" where
  "matchJavascriptProtocol s =
     (if toLowerCase (take 11 s) = ''javascript:'' then Some 11 else None)"

definition matchEventHandler :: "string \<Rightarrow> nat option" where
  "matchEventHandler s =
     (if toLowerCase (take 2 s) = ''on'' then
        (let word = takeWhile isWordChar (drop 2 s);
             rest = dropWhile isWordChar (drop 2 s)
         in if word \<noteq> [] \<and> take 1 rest = ''='' then Some (2 + length word + 1)
            else None)
      else None)"

definition sanitizeText :: "string \<Rightarrow> string" where
  "sanitizeText text =
     (if text = [] then []
      else
        take 2000
          (trim
            (replace_global matchEventHandler
              (replace_global matchJavascriptProtocol
                (replace_global matchAngleBracket text)))))"

text \<open>\<open>env.MD_TELEGRAM_USER_ID && userId === env.MD_TELEGRAM_USER_ID\<close>: the number 0 is
  falsy as well.\<close>

definition isAuthorizedMD :: "env \<Rightarrow> int \<Rightarrow> bool" where
  "isAuthorizedMD env userId =
     (case MD_TELEGRAM_USER_ID env of
        None \<Rightarrow> False
      | Some md \<Rightarrow> md \<noteq> 0 \<and> userId = md)"

definition getErrorMessage :: string where
  "getErrorMessage =
     ''Sorry, something went wrong. Please try again or contact our staff directly.''"

definition healthKeywords :: "string list" where
  "healthKeywords =
     [''pain'', ''sick'', ''help'', ''emergency'', ''urgent'',
      ''depression'', ''anxiety'', ''mental'', ''stress'',
      ''hurt'', ''feel'', ''doctor'', ''medicine'', ''treatment'']"

definition hasHealthKeywords :: "string \<Rightarrow> bool" where
  "hasHealthKeywords text =
     (if text = [] then False
      else
        (let lowerText = toLowerCase text
         in list_ex (\<lambda>keyword. str_includes lowerText keyword) healthKeywords))"

subsection \<open>The replies of lib/utils.js\<close>

text \<open>The symbols of the reply texts outside the range of the model's characters, each
  kept as the bytes of its UTF-8 encoding. No property below depends on their content.\<close>

definition sym_alarm_clock :: string where \<comment> \<open>U+23F0\<close>
  "sym_alarm_clock = [CHR 0xE2, CHR 0x8F, CHR 0xB0]"

definition sym_bar_chart :: string where \<comment> \<open>U+1F4CA\<close>
  "sym_bar_chart = [CHR 0xF0, CHR 0x9F, CHR 0x93, CHR 0x8A]"

definition sym_black_question_mark_ornament :: string where \<comment> \<open>U+2753\<close>
  "sym_black_question_mark_ornament = [CHR 0xE2, CHR 0x9D, CHR 0x93]"

definition sym_bullet :: string where \<comment> \<open>U+2022\<close>
  "sym_bullet = [CHR 0xE2, CHR 0x80, CHR 0xA2]"

definition sym_calendar :: string where \<comment> \<open>U+1F4C5\<close>
  "sym_calendar = [CHR 0xF0, CHR 0x9F, CHR 0x93, CHR 0x85]"

definition sym_camera_with_flash :: string where \<comment> \<open>U+1F4F8\<close>
  "sym_camera_with_flash = [CHR 0xF0, CHR 0x9F, CHR 0x93, CHR 0xB8]"

definition sym_clipboard :: string where \<comment> \<open>U+1F4CB\<close>
  "sym_clipboard = [CHR 0xF0, CHR 0x9F, CHR 0x93, CHR 0x8B]"

definition sym_credit_card :: string where \<comment> \<open>U+1F4B3\<close>
  "sym_credit_card = [CHR 0xF0, CHR 0x9F, CHR 0x92, CHR 0xB3]"

definition sym_cross_mark :: string where \<comment> \<open>U+274C\<close>
  "sym_cross_mark = [CHR 0xE2, CHR 0x9D, CHR 0x8C]"

definition sym_en_dash :: string where \<comment> \<open>U+2013\<close>
  "sym_en_dash = [CHR 0xE2, CHR 0x80, CHR 0x93]"

definition sym_hospital :: string where \<comment> \<open>U+1F3E5\<close>
  "sym_hospital = [CHR 0xF0, CHR 0x9F, CHR 0x8F, CHR 0xA5]"

definition sym_man_health_worker :: string where \<comment> \<open>U+1F468 U+200D U+2695 U+FE0F\<close>
  "sym_man_health_worker =
     [CHR 0xF0, CHR 0x9F, CHR 0x91, CHR 0xA8, CHR 0xE2, CHR 0x80, CHR 0x8D,
      CHR 0xE2, CHR 0x9A, CHR 0x95, CHR 0xEF, CHR 0xB8, CHR 0x8F]"

definition sym_movie_camera :: string where \<comment> \<open>U+1F3A5\<close>
  "sym_movie_camera = [CHR 0xF0, CHR 0x9F, CHR 0x8E, CHR 0xA5]"

definition sym_musical_note :: string where \<comment> \<open>U+1F3B5\<close>
  "sym_musical_note = [CHR 0xF0, CHR 0x9F, CHR 0x8E, CHR 0xB5]"

definition sym_page_facing_up :: string where \<comment> \<open>U+1F4C4\<close>
  "sym_page_facing_up = [CHR 0xF0, CHR 0x9F, CHR 0x93, CHR 0x84]"

definition sym_police_cars_revolving_light :: string where \<comment> \<open>U+1F6A8\<close>
  "sym_police_cars_revolving_light = [CHR 0xF0, CHR 0x9F, CHR 0x9A, CHR 0xA8]"

definition sym_round_pushpin :: string where \<comment> \<open>U+1F4CD\<close>
  "sym_round_pushpin = [CHR 0xF0, CHR 0x9F, CHR 0x93, CHR 0x8D]"

definition sym_speech_balloon :: string where \<comment> \<open>U+1F4AC\<close>
  "sym_speech_balloon = [CHR 0xF0, CHR 0x9F, CHR 0x92, CHR 0xAC]"

definition sym_telephone_receiver :: string where \<comment> \<open>U+1F4DE\<close>
  "sym_telephone_receiver = [CHR 0xF0, CHR 0x9F, CHR 0x93, CHR 0x9E]"

definition sym_white_heavy_check_mark :: string where \<comment> \<open>U+2705\<close>
  "sym_white_heavy_check_mark = [CHR 0xE2, CHR 0x9C, CHR 0x85]"

definition getFAQMenu :: string where
  "getFAQMenu =
     joinLines
     [sym_clipboard @ '' Frequently Asked Questions:'',
      '''',
      sym_round_pushpin @ '' Locations:'',
      ''  '' @ sym_bullet @ '' Galadinmawa, Abuja'',
      ''  '' @ sym_bullet @ '' Karu, Abuja'',
      '''',
      sym_alarm_clock @ '' Hours: 8am'' @ sym_en_dash @ ''6pm Monday'' @ sym_en_dash @
        ''Saturday'',
      '''',
      sym_hospital @ '' Services:'',
      ''  '' @ sym_bullet @ '' Mental health support'',
      ''  '' @ sym_bullet @ '' Substance-use counseling'',
      ''  '' @ sym_bullet @ '' General consultations'',
      '''',
      sym_credit_card @ '' Payment: Cash, Bank Transfer, Insurance'',
      '''',
      sym_telephone_receiver @ '' For emergencies, please call our 24/7 hotline.'']"

definition getBookingInstructions :: string where
  "getBookingInstructions =
     joinLines
     [sym_calendar @ '' To book an appointment, please send:'',
      '''',
      ''Format: Full Name, Preferred Date/Time'',
      '''',
      ''Examples:'',
      sym_bullet @ '' Ada Lovelace, Friday 3pm'',
      sym_bullet @ '' John Doe, Tomorrow 10am'',
      sym_bullet @ '' Jane Smith, Monday morning'',
      '''',
      ''We'll confirm availability and contact you shortly.'']"

definition getStaffConnectionMessage :: string where
  "getStaffConnectionMessage =
     joinLines
     [sym_man_health_worker @ '' Connecting you with our staff...'',
      '''',
      ''Your message will be forwarded to our next available team member.'',
      ''Expected response time: 30 minutes - 2 hours during business hours.'',
      '''',
      ''For urgent matters, please call our clinic directly.'']"

definition getOwnerProfile :: "env \<Rightarrow> string" where
  "getOwnerProfile env =
     joinLines
     [OWNER_NAME env @ '' is the Managing Director of '' @ CLINIC_NAME env @ '' in '' @
        CITY env @ ''.'',
      '''',
      ''For administrative matters, please send your request and we will ensure it reaches the appropriate person.'',
      '''',
      ''Response time: Within 2-4 business hours.'']"

definition getBookingReply :: "string \<Rightarrow> string" where
  \<open>getBookingReply text =
     joinLines
     [sym_white_heavy_check_mark @ '' Booking request received!'',
      '''',
      ''Request: "'' @ text @ ''"'',
      '''',
      ''A staff member will contact you shortly to confirm your appointment.'',
      ''Please ensure your phone number is available for confirmation.'']\<close>

definition getInvalidBookingMessage :: string where
  "getInvalidBookingMessage =
     joinLines
     [sym_cross_mark @ '' Booking format not recognized.'',
      '''',
      ''Please use: Full Name, Preferred Date/Time'',
      ''Example: 'Ada Lovelace, Friday 3pm'' @ [CHR 0x27],
      '''',
      ''Or type '1' for booking instructions.'']"

definition getHealthResponse :: string where
  "getHealthResponse =
     joinLines
     [''I understand you may be experiencing health concerns.'',
      '''',
      ''While I can help with appointments and information, I cannot provide medical advice.'',
      '''',
      ''For immediate care:'',
      sym_bullet @ '' Book an appointment: Send 'Your Name, preferred time'' @ [CHR 0x27],
      sym_bullet @ '' For emergencies: Please call our 24/7 hotline immediately'',
      '''',
      ''Our medical professionals are here to help.'']"

section \<open>Emergency check (lib/llm.js)\<close>

definition emergencyKeywords :: "string list" where
  "emergencyKeywords =
     [''emergency'', ''urgent'', ''help'', ''dying'', ''suicide'', ''kill myself'',
      ''overdose'', ''chest pain'', ''can't breathe'', ''bleeding'', ''unconscious'']"

definition containsEmergencyKeywords :: "string \<Rightarrow> bool" where
  "containsEmergencyKeywords text =
     (let lowerText = toLowerCase text
      in list_ex (\<lambda>keyword. str_includes lowerText keyword) emergencyKeywords)"

definition getEmergencyResponse :: "env \<Rightarrow> string" where
  "getEmergencyResponse env =
     joinLines
     [sym_police_cars_revolving_light @ '' **URGENT MEDICAL ATTENTION NEEDED**'',
      '''',
      ''If this is a medical emergency:'',
      sym_bullet @ '' Call emergency services immediately: 199 or 112'',
      sym_bullet @ '' Go to the nearest hospital emergency room'',
      '''',
      ''For mental health crisis:'',
      sym_bullet @ '' National Mental Health Helpline: 080-963-4357'',
      '''',
      ''Our clinic ('' @ CLINIC_NAME env @
        '') is available 8am-6pm for urgent appointments.'']"

section \<open>Errors, effects and collaborators\<close>

text \<open>
  What a function throws is a value of \<open>error\<close>. What a handler does to the outside is
  a list of effects, in the order it does it: a reply to the chat (plain, or with
  \<open>parse_mode: 'Markdown'\<close>), a call of a function of the storage module, a request
  to the generative model. Sending a reply is taken to succeed.
\<close>

datatype error = TypeError | SyntaxError | FetchError

datatype systemPrompt =
  general | audio_transcription | image_analysis | document_summary | video_summary

text \<open>A request to \<open>generateContent\<close>: the general prompt around the user's text, or one
  of the media prompts (named by its key in \<open>SYSTEM_PROMPTS\<close>) with the inline data and
  its MIME type.\<close>

datatype aiRequest =
    TextRequest string
  | MediaRequest systemPrompt string string

record appointmentData =
  patient_id :: string
  full_name :: string
  preferred_datetime :: string
  telegram_user_id :: int
  telegram_chat_id :: int
  raw_request :: string

datatype dbCall =
    CreateAppointment "appointmentData"
  | GetDailyBrief
  | GetFollowupAppointments nat

datatype effect =
    Reply string
  | ReplyMarkdown string
  | DbCall dbCall
  | AiCall aiRequest

text \<open>
  The collaborators a handler is given. \<open>RegExp_i pattern\<close> is \<open>new RegExp(pattern, "i")\<close>:
  a syntax error, or the \<open>test\<close> function of the expression. \<open>gemini\<close> is the model
  client, \<open>None\<close> when no API key is configured or the initialisation failed; given a
  request it returns the text of the response, or the error that the call or the reading
  of its response throws. \<open>now_ms\<close> is the clock in milliseconds since the epoch,
  \<open>localeDate\<close> is \<open>new Date().toLocaleDateString()\<close> and \<open>isoDate\<close> is
  \<open>new Date().toISOString().split('T')[0]\<close>.
\<close>

record services =
  RegExp_i :: "string \<Rightarrow> error + (string \<Rightarrow> bool)"
  gemini :: "(aiRequest \<Rightarrow> error + string) option"
  now_ms :: nat
  localeDate :: string
  isoDate :: string

section \<open>Text and media analysis (lib/llm.js)\<close>

definition llmTextReply :: "services \<Rightarrow> string \<Rightarrow> string \<times> effect list" where
  "llmTextReply svc userText =
     (case gemini svc of
        None \<Rightarrow>
          (''I'm currently unable to process your request. Please contact our staff directly for assistance.'', [])
      | Some generateContent \<Rightarrow>
          (case generateContent (TextRequest userText) of
             Inl error \<Rightarrow>
               (''I'm having trouble processing your request right now. Please try again or contact our staff directly.'',
                [AiCall (TextRequest userText)])
           | Inr response \<Rightarrow>
               (let text = (if length response > 400 then take 397 response @ ''...''
                            else response)
                in (if text = []
                    then ''Thank you for your message. A staff member will assist you shortly.''
                    else text,
                    [AiCall (TextRequest userText)]))))"

datatype mediaType = image | audio | video | document

text \<open>The chain of tests on the content type that picks the prompt and the media type;
  \<open>None\<close> is the final \<open>else\<close>.\<close>

definition mediaPrompt :: "string \<Rightarrow> (systemPrompt \<times> mediaType) option" where
  "mediaPrompt contentType =
     (if prefix ''image/'' contentType then Some (image_analysis, image)
      else if prefix ''audio/'' contentType then Some (audio_transcription, audio)
      else if prefix ''video/'' contentType then Some (video_summary, video)
      else if contentType = ''application/pdf'' \<or> str_includes contentType ''document''
        then Some (document_summary, document)
      else None)"

definition imageLabel :: string where
  "imageLabel =
     sym_camera_with_flash @ '' **Image Analysis:**'' @ [CHR 0x0A]"

definition audioLabel :: string where
  "audioLabel =
     sym_musical_note @ '' **Audio Transcription:**'' @ [CHR 0x0A]"

definition videoLabel :: string where
  "videoLabel =
     sym_movie_camera @ '' **Video Summary:**'' @ [CHR 0x0A]"

definition documentLabel :: string where
  "documentLabel =
     sym_page_facing_up @ '' **Document Summary:**'' @ [CHR 0x0A]"

definition disclaimer :: string where
  "disclaimer =
     [CHR 0x0A] @ [CHR 0x0A] @
       ''*Note: This is an AI analysis. For medical concerns, please consult with our healthcare professionals.*''"

definition imageFallback :: string where
  "imageFallback =
     sym_camera_with_flash @
       '' Image received. Our medical staff will review it during your appointment.''"

definition audioFallback :: string where
  "audioFallback =
     sym_musical_note @
       '' Audio message received. Our staff will listen to it and respond accordingly.''"

definition videoFallback :: string where
  "videoFallback =
     sym_movie_camera @
       '' Video received. Our team will review it as part of your consultation.''"

definition pdfFallback :: string where
  "pdfFallback =
     sym_page_facing_up @
       '' Document received. Our staff will review it and discuss during your appointment.''"

fun mediaLabel :: "mediaType \<Rightarrow> string" where
  "mediaLabel image = imageLabel"
| "mediaLabel audio = audioLabel"
| "mediaLabel video = videoLabel"
| "mediaLabel document = documentLabel"

text \<open>The \<open>catch\<close> block of \<open>llmAnalyzeMedia\<close>.\<close>

definition mediaFallback :: "string \<Rightarrow> string \<Rightarrow> string" where
  "mediaFallback contentType filename =
     (if prefix ''image/'' contentType then imageFallback
      else if prefix ''audio/'' contentType then audioFallback
      else if prefix ''video/'' contentType then videoFallback
      else if contentType = ''application/pdf'' then pdfFallback
      else ''File received ('' @ (if filename = [] then ''unknown type'' else filename) @
           ''). Our team will review it manually.'')"

definition mediaUnavailable :: string where
  "mediaUnavailable =
     ''Media analysis is currently unavailable. Please contact our staff for manual review.''"

definition fileReceived :: "string \<Rightarrow> string" where
  "fileReceived filename =
     ''File received: '' @ (if filename = [] then ''Unknown file'' else filename) @
     ''. Our staff will review this file type manually.''"

text \<open>\<open>llmAnalyzeMedia({ bufferBase64, contentType, filename })\<close>: the string it returns
  and the requests it made. The branch \<open>Inl\<close> of the request is the \<open>catch\<close> block.\<close>

definition llmAnalyzeMedia ::
  "services \<Rightarrow> string \<Rightarrow> string \<Rightarrow> string \<Rightarrow> string \<times> effect list" where
  "llmAnalyzeMedia svc bufferBase64 contentType filename =
     (case gemini svc of
        None \<Rightarrow> (mediaUnavailable, [])
      | Some generateContent \<Rightarrow>
          (case mediaPrompt contentType of
             None \<Rightarrow> (fileReceived filename, [])
           | Some (prompt, mediaType) \<Rightarrow>
               (let request = MediaRequest prompt bufferBase64 contentType
                in case generateContent request of
                     Inr text \<Rightarrow>
                       (mediaLabel mediaType @ text @ disclaimer, [AiCall request])
                   | Inl error \<Rightarrow>
                       (mediaFallback contentType filename, [AiCall request]))))"




definition summarizeVideo :: "services \<Rightarrow> string \<Rightarrow> string \<Rightarrow> string \<times> effect list" where
  "summarizeVideo svc bufferBase64 contentType =
     llmAnalyzeMedia svc bufferBase64 contentType ''video_file''"

section \<open>Storage (lib/supabase.js)\<close>

text \<open>
  The tables the modelled functions touch, with the columns they read or write. The
  timestamps of the database are microseconds since the epoch. \<open>client\<close> tells whether
  \<open>getSupabaseClient()\<close> returns a client, and \<open>fault\<close> how each query ends: with its
  rows, with an error in its result (\<open>data\<close> is \<open>null\<close>), or with an exception.
\<close>

datatype appointment_status = pending | confirmed | cancelled | completed | rescheduled

record appointment = appointmentData +
  status :: appointment_status
  channel :: string
  created_at :: nat
  updated_at :: nat

record chat_log =
  timestamp :: nat
  message_text :: string

datatype query =
  InsertAppointment | SelectChats | SelectBookings | SelectCancels | SelectFaqs | SelectFollowups

datatype fault = NoFault | ErrorResult | Exception

record database =
  client :: bool
  fault :: "query \<Rightarrow> fault"
  appointments :: "appointment list"
  chat_logs :: "chat_log list"

text \<open>The \<open>data\<close> of a query that would return \<open>rows\<close>, or the exception it throws.\<close>

definition select :: "database \<Rightarrow> query \<Rightarrow> 'a list \<Rightarrow> error + 'a list option" where
  "select db q rows =
     (case fault db q of
        NoFault \<Rightarrow> Inr (Some rows)
      | ErrorResult \<Rightarrow> Inr None
      | Exception \<Rightarrow> Inl FetchError)"

text \<open>\<open>createAppointment\<close>: the database afterwards and the row returned (\<open>None\<close> for
  \<open>null\<close>). \<open>now\<close> is \<open>new Date()\<close> in milliseconds.\<close>

definition createAppointment ::
  "database \<Rightarrow> nat \<Rightarrow> appointmentData \<Rightarrow> database \<times> appointment option" where
  "createAppointment db now appointmentData =
     (if \<not> client db then (db, None)
      else
        (let appointment =
               \<lparr>patient_id = patient_id appointmentData,
                full_name = full_name appointmentData,
                preferred_datetime = preferred_datetime appointmentData,
                telegram_user_id = telegram_user_id appointmentData,
                telegram_chat_id = telegram_chat_id appointmentData,
                raw_request = raw_request appointmentData,
                status = pending,
                channel = ''telegram'',
                created_at = now * 1000,
                updated_at = now * 1000\<rparr>
         in case fault db InsertAppointment of
              NoFault \<Rightarrow>
                (db\<lparr>appointments := appointments db @ [appointment]\<rparr>, Some appointment)
            | ErrorResult \<Rightarrow> (db, None)
            | Exception \<Rightarrow> (db, None)))"

record dailyBrief =
  chats :: nat
  bookings :: nat
  cancels :: nat
  faqs :: nat

definition zeroBrief :: dailyBrief where
  "zeroBrief = \<lparr>chats = 0, bookings = 0, cancels = 0, faqs = 0\<rparr>"

text \<open>A day is its number since the epoch; \<open>T00:00:00.000Z\<close> and \<open>T23:59:59.999Z\<close> of it
  in microseconds.\<close>

definition dayStart :: "nat \<Rightarrow> nat" where
  "dayStart targetDate = targetDate * 86400000000"

definition dayEnd :: "nat \<Rightarrow> nat" where
  "dayEnd targetDate = targetDate * 86400000000 + 86399999000"

text \<open>\<open>data?.length || 0\<close>\<close>

definition rowCount :: "'a list option \<Rightarrow> nat" where
  "rowCount data = (case data of None \<Rightarrow> 0 | Some rows \<Rightarrow> length rows)"

text \<open>\<open>.ilike(column, '%k%')\<close> for a keyword \<open>k\<close> of small letters without wildcards.\<close>

definition ilike_contains :: "string \<Rightarrow> string \<Rightarrow> bool" where
  "ilike_contains value k = str_includes (toLowerCase value) k"

text \<open>\<open>getDailyBrief(date = null)\<close>; \<open>today\<close> is the day of \<open>new Date()\<close>. The four
  queries are awaited one after the other inside one \<open>try\<close>: an exception in any of them
  gives the zero brief.\<close>

definition getDailyBrief :: "database \<Rightarrow> nat \<Rightarrow> nat option \<Rightarrow> dailyBrief" where
  "getDailyBrief db today date =
     (if \<not> client db then zeroBrief
      else
        (let targetDate = (case date of None \<Rightarrow> today | Some d \<Rightarrow> d);
             startOfDay = dayStart targetDate;
             endOfDay = dayEnd targetDate
         in
           case select db SelectChats
                  [l \<leftarrow> chat_logs db. startOfDay \<le> timestamp l \<and> timestamp l \<le> endOfDay] of
             Inl error \<Rightarrow> zeroBrief
           | Inr chatsData \<Rightarrow>
           (case select db SelectBookings
                  [a \<leftarrow> appointments db. status a = pending \<and>
                     startOfDay \<le> created_at a \<and> created_at a \<le> endOfDay] of
             Inl error \<Rightarrow> zeroBrief
           | Inr bookingsData \<Rightarrow>
           (case select db SelectCancels
                  [a \<leftarrow> appointments db. status a = cancelled \<and>
                     startOfDay \<le> updated_at a \<and> updated_at a \<le> endOfDay] of
             Inl error \<Rightarrow> zeroBrief
           | Inr cancelsData \<Rightarrow>
           (case select db SelectFaqs
                  [l \<leftarrow> chat_logs db. ilike_contains (message_text l) ''faq'' \<and>
                     startOfDay \<le> timestamp l \<and> timestamp l \<le> endOfDay] of
             Inl error \<Rightarrow> zeroBrief
           | Inr faqsData \<Rightarrow>
               \<lparr>chats = rowCount chatsData,
                bookings = rowCount bookingsData,
                cancels = rowCount cancelsData,
                faqs = rowCount faqsData\<rparr>)))))"

text \<open>\<open>getFollowupAppointments(limit = 20)\<close>: the pending and rescheduled appointments,
  oldest first, at most \<open>limit\<close> of them.\<close>

definition getFollowupAppointments :: "database \<Rightarrow> nat \<Rightarrow> appointment list" where
  "getFollowupAppointments db limit =
     (if \<not> client db then []
      else
        (case select db SelectFollowups
                (take limit
                  (sort_key created_at
                    [a \<leftarrow> appointments db. status a \<in> set [pending, rescheduled]])) of
           Inl error \<Rightarrow> []
         | Inr None \<Rightarrow> []
         | Inr (Some data) \<Rightarrow> data))"

section \<open>The bot (routes/telegram.js)\<close>

text \<open>
  What a handler reads of its context: \<open>ctx.from.id\<close> (\<open>None\<close> when the update has no
  sender and \<open>ctx.from\<close> is undefined), \<open>ctx.chat.id\<close>, \<open>ctx.message.text\<close> and the
  patient record that the middleware in front of the handlers stores in \<open>ctx.patient\<close>.
  Each handler is modelled as the function that is registered; the middleware chain
  itself is not part of the model.
\<close>

record patient =
  id' :: string

record ctx =
  from_id :: "int option"
  chat_id :: int
  message :: string
  patient :: "patient option"

text \<open>\<open>safeHandler\<close>: an exception of the handler becomes the error reply.\<close>

definition safeHandler ::
  "(database \<Rightarrow> ctx \<Rightarrow> error + database \<times> effect list) \<Rightarrow>
   database \<Rightarrow> ctx \<Rightarrow> database \<times> effect list" where
  "safeHandler handler db ctx =
     (case handler db ctx of
        Inl error \<Rightarrow> (db, [Reply getErrorMessage])
      | Inr result \<Rightarrow> result)"

text \<open>A number inside a template literal: its decimal digits.\<close>

definition digit :: "nat \<Rightarrow> char" where
  "digit d = ''0123456789'' ! (d mod 10)"

function showNat :: "nat \<Rightarrow> string" where
  "showNat n = (if n < 10 then [digit n] else showNat (n div 10) @ [digit (n mod 10)])"
  by pat_completeness auto
termination
  by (relation "measure (\<lambda>n. n)") auto

definition unauthorizedMessage :: string where
  "unauthorizedMessage =
     sym_cross_mark @
       '' Unauthorized. This command is restricted to clinic administrators.''"

definition dailyBriefResponse :: "env \<Rightarrow> string \<Rightarrow> dailyBrief \<Rightarrow> string" where
  "dailyBriefResponse env dateText briefData =
     joinLines
     [sym_bar_chart @ '' **Daily Brief** (Today)'',
      '''',
      sym_speech_balloon @ '' Chats: '' @ showNat (chats briefData),
      sym_calendar @ '' Bookings: '' @ showNat (bookings briefData),
      sym_cross_mark @ '' Cancels: '' @ showNat (cancels briefData),
      sym_black_question_mark_ornament @ '' FAQs: '' @ showNat (faqs briefData),
      '''',
      sym_hospital @ '' '' @ CLINIC_NAME env @ '' - '' @ dateText]"

definition noFollowupsMessage :: string where
  "noFollowupsMessage =
     sym_white_heavy_check_mark @ '' No pending follow-ups at this time.''"

definition followupsHeader :: string where
  "followupsHeader =
     sym_clipboard @ '' **Pending Follow-ups** (Top 20)''"

fun statusText :: "appointment_status \<Rightarrow> string" where
  "statusText pending = ''pending''"
| "statusText confirmed = ''confirmed''"
| "statusText cancelled = ''cancelled''"
| "statusText completed = ''completed''"
| "statusText rescheduled = ''rescheduled''"

definition followupLine :: "nat \<times> appointment \<Rightarrow> string" where
  "followupLine = (\<lambda>(index, apt).
     showNat (index + 1) @ ''. **'' @ full_name apt @ ''** - '' @
     (if preferred_datetime apt = [] then ''TBD'' else preferred_datetime apt) @
     '' ('' @ statusText (status apt) @ '')'')"

definition followupsResponse :: "appointment list \<Rightarrow> string" where
  "followupsResponse followups =
     joinLines
       ([followupsHeader, ''''] @
        map followupLine (enumerate 0 followups) @
        ['''', ''Total: '' @ showNat (length followups) @ '' appointments''])"

text \<open>The day of \<open>new Date()\<close>.\<close>

definition today :: "services \<Rightarrow> nat" where
  "today svc = now_ms svc div 86400000"

text \<open>\<open>bot.command('md_brief', ...)\<close>. The functions of the storage module catch their
  own exceptions, so the \<open>catch\<close> around the call is reached by a failing reply only.\<close>

definition md_brief :: "env \<Rightarrow> services \<Rightarrow> database \<Rightarrow> ctx \<Rightarrow> error + database \<times> effect list" where
  "md_brief env svc db ctx =
     (case from_id ctx of
        None \<Rightarrow> Inl TypeError
      | Some userId \<Rightarrow>
          if \<not> isAuthorizedMD env userId then Inr (db, [Reply unauthorizedMessage])
          else
            (let briefData = getDailyBrief db (today svc) None
             in Inr (db, [DbCall GetDailyBrief,
                          ReplyMarkdown (dailyBriefResponse env (localeDate svc) briefData)])))"

text \<open>\<open>bot.command('md_followups', ...)\<close>\<close>

definition md_followups :: "env \<Rightarrow> services \<Rightarrow> database \<Rightarrow> ctx \<Rightarrow> error + database \<times> effect list" where
  "md_followups env svc db ctx =
     (case from_id ctx of
        None \<Rightarrow> Inl TypeError
      | Some userId \<Rightarrow>
          if \<not> isAuthorizedMD env userId then Inr (db, [Reply unauthorizedMessage])
          else
            (let followups = getFollowupAppointments db 20
             in if length followups = 0
                then Inr (db, [DbCall (GetFollowupAppointments 20), Reply noFollowupsMessage])
                else Inr (db, [DbCall (GetFollowupAppointments 20),
                               ReplyMarkdown (followupsResponse followups)])))"

text \<open>\<open>bot.on('text', ...)\<close>. \<open>llmTextReply\<close> catches its own exceptions, so the \<open>catch\<close>
  around it with the guided-options reply is reached by a failing reply only.\<close>

definition on_text :: "env \<Rightarrow> services \<Rightarrow> database \<Rightarrow> ctx \<Rightarrow> error + database \<times> effect list" where
  "on_text env svc db ctx =
     (let text = sanitizeText (message ctx)
      in
        if text = [] then Inr (db, [])
        else if containsEmergencyKeywords text
          then Inr (db, [ReplyMarkdown (getEmergencyResponse env)])
        else
          (case RegExp_i svc (OWNER_NAME env) of
             Inl error \<Rightarrow> Inl error
           | Inr ownerRegex \<Rightarrow>
               if ownerRegex text then Inr (db, [Reply (getOwnerProfile env)])
               else
                 (let lowerText = toLowerCase text
                  in
                    if lowerText \<in> set [''1'', ''book'', ''booking'', ''appointment'']
                      then Inr (db, [Reply getBookingInstructions])
                    else if lowerText \<in> set [''2'', ''faq'', ''faqs'', ''info'', ''information'']
                      then Inr (db, [Reply getFAQMenu])
                    else if lowerText \<in> set [''3'', ''staff'', ''agent'', ''human'', ''person'']
                      then Inr (db, [Reply getStaffConnectionMessage])
                    else if looksLikeBooking text then
                      (case validateBookingFormat text of
                         Valid name timeSlot \<Rightarrow>
                           (case patient ctx of
                              None \<Rightarrow> Inr (db, [Reply (getBookingReply text)])
                            | Some p \<Rightarrow>
                                (case from_id ctx of
                                   None \<Rightarrow> Inl TypeError
                                 | Some userId \<Rightarrow>
                                     (let appointmentData =
                                            \<lparr>patient_id = id' p,
                                             full_name = name,
                                             preferred_datetime = timeSlot,
                                             telegram_user_id = userId,
                                             telegram_chat_id = chat_id ctx,
                                             raw_request = text\<rparr>;
                                          (db', created) =
                                            createAppointment db (now_ms svc) appointmentData
                                      in Inr (db', [DbCall (CreateAppointment appointmentData),
                                                    Reply (getBookingReply text)]))))
                       | Invalid \<Rightarrow> Inr (db, [Reply getInvalidBookingMessage]))
                    else if hasHealthKeywords text then Inr (db, [Reply getHealthResponse])
                    else
                      (let (aiResponse, requests) = llmTextReply svc text
                       in Inr (db, requests @ [Reply aiResponse])))))"

section \<open>The HTTP endpoints (server.js)\<close>

text \<open>
  A request is its \<open>Authorization\<close> header. Both endpoints read no other part of it, and
  \<open>/api/md/brief\<close> computes an API key from the header that it never uses. A response is
  its status and its JSON body.
\<close>

record request =
  authorization :: "string option"

datatype responseBody =
    ErrorBody string
  | BriefBody string string dailyBrief
  | FollowupsBody nat "appointment list"

record response =
  statusCode :: nat
  body :: responseBody

text \<open>\<open>!env.MD_TELEGRAM_USER_ID\<close>\<close>

definition mdNotConfigured :: "env \<Rightarrow> bool" where
  "mdNotConfigured env =
     (case MD_TELEGRAM_USER_ID env of None \<Rightarrow> True | Some md \<Rightarrow> md = 0)"

text \<open>\<open>app.get('/api/md/brief', ...)\<close>\<close>

definition get_md_brief :: "env \<Rightarrow> services \<Rightarrow> database \<Rightarrow> request \<Rightarrow> response \<times> effect list" where
  "get_md_brief env svc db req =
     (if mdNotConfigured env
      then (\<lparr>statusCode = 403,
             body = ErrorBody ''Unauthorized - MD access not configured''\<rparr>, [])
      else
        (let briefData = getDailyBrief db (today svc) None
         in (\<lparr>statusCode = 200,
              body = BriefBody (isoDate svc) (CLINIC_NAME env) briefData\<rparr>,
             [DbCall GetDailyBrief])))"

text \<open>\<open>app.get('/api/md/followups', ...)\<close>\<close>

definition get_md_followups ::
  "env \<Rightarrow> services \<Rightarrow> database \<Rightarrow> request \<Rightarrow> response \<times> effect list" where
  "get_md_followups env svc db req =
     (if mdNotConfigured env
      then (\<lparr>statusCode = 403,
             body = ErrorBody ''Unauthorized - MD access not configured''\<rparr>, [])
      else
        (let followups = getFollowupAppointments db 20
         in (\<lparr>statusCode = 200,
              body = FollowupsBody (length followups) followups\<rparr>,
             [DbCall (GetFollowupAppointments 20)])))"

section \<open>Classification as the specification describes it\<close>

text \<open>
  The specification reads the handler for text messages as a classifier followed by a
  resolver: \<open>classify\<close> gives the intent of a sanitized, non-empty text as the first rule
  of the ordered list that matches, and \<open>resolve\<close> gives the reply of an intent. The two
  definitions follow the specification's list of rules, with the keyword sets of the
  code; they are compared with \<open>on_text\<close> below. A booking submission carries the result
  of the validation, which tells the valid from the invalid sub-case.
\<close>

datatype intent =
    EmergencyConcern
  | OwnerQuery
  | BookingInstructions
  | FAQMenu
  | StaffConnect
  | BookingSubmission validation
  | HealthConcern
  | Unrecognized

definition classify :: "(string \<Rightarrow> bool) \<Rightarrow> string \<Rightarrow> intent" where
  "classify ownerRegex text =
     (if containsEmergencyKeywords text then EmergencyConcern
      else if ownerRegex text then OwnerQuery
      else if toLowerCase text \<in> set [''1'', ''book'', ''booking'', ''appointment'']
        then BookingInstructions
      else if toLowerCase text \<in> set [''2'', ''faq'', ''faqs'', ''info'', ''information'']
        then FAQMenu
      else if toLowerCase text \<in> set [''3'', ''staff'', ''agent'', ''human'', ''person'']
        then StaffConnect
      else if looksLikeBooking text then BookingSubmission (validateBookingFormat text)
      else if hasHealthKeywords text then HealthConcern
      else Unrecognized)"

fun resolve ::
  "env \<Rightarrow> services \<Rightarrow> database \<Rightarrow> ctx \<Rightarrow> string \<Rightarrow> intent \<Rightarrow> error + database \<times> effect list" where
  "resolve env svc db ctx text EmergencyConcern =
     Inr (db, [ReplyMarkdown (getEmergencyResponse env)])"
| "resolve env svc db ctx text OwnerQuery = Inr (db, [Reply (getOwnerProfile env)])"
| "resolve env svc db ctx text BookingInstructions = Inr (db, [Reply getBookingInstructions])"
| "resolve env svc db ctx text FAQMenu = Inr (db, [Reply getFAQMenu])"
| "resolve env svc db ctx text StaffConnect = Inr (db, [Reply getStaffConnectionMessage])"
| "resolve env svc db ctx text (BookingSubmission Invalid) =
     Inr (db, [Reply getInvalidBookingMessage])"
| "resolve env svc db ctx text (BookingSubmission (Valid name timeSlot)) =
     (case patient ctx of
        None \<Rightarrow> Inr (db, [Reply (getBookingReply text)])
      | Some p \<Rightarrow>
          (case from_id ctx of
             None \<Rightarrow> Inl TypeError
           | Some userId \<Rightarrow>
               (let appointmentData =
                      \<lparr>patient_id = id' p,
                       full_name = name,
                       preferred_datetime = timeSlot,
                       telegram_user_id = userId,
                       telegram_chat_id = chat_id ctx,
                       raw_request = text\<rparr>
                in Inr (fst (createAppointment db (now_ms svc) appointmentData),
                        [DbCall (CreateAppointment appointmentData),
                         Reply (getBookingReply text)]))))"
| "resolve env svc db ctx text HealthConcern = Inr (db, [Reply getHealthResponse])"
| "resolve env svc db ctx text Unrecognized =
     Inr (db, snd (llmTextReply svc text) @ [Reply (fst (llmTextReply svc text))])"

text \<open>The replies among the effects of a handler, and the calls of the storage module.\<close>

fun isReply :: "effect \<Rightarrow> bool" where
  "isReply (Reply text) = True"
| "isReply (ReplyMarkdown text) = True"
| "isReply (DbCall c) = False"
| "isReply (AiCall r) = False"

fun isDbCall :: "effect \<Rightarrow> bool" where
  "isDbCall (DbCall c) = True"
| "isDbCall (Reply text) = False"
| "isDbCall (ReplyMarkdown text) = False"
| "isDbCall (AiCall r) = False"

fun isAiCall :: "effect \<Rightarrow> bool" where
  "isAiCall (AiCall r) = True"
| "isAiCall (Reply text) = False"
| "isAiCall (ReplyMarkdown text) = False"
| "isAiCall (DbCall c) = False"

text \<open>The emergency keywords that the specification names for its first rule; the list of
  the code is \<open>emergencyKeywords\<close>.\<close>

definition specEmergencyKeywords :: "string list" where
  "specEmergencyKeywords =
     [''emergency'', ''suicide'', ''overdose'', ''can't breathe'', ''unconscious'', ''bleeding'']"

section \<open>Example configuration and collaborators\<close>

text \<open>
  \<open>new RegExp(pattern, "i")\<close> for a pattern of ordinary characters and dots, such as the
  default owner name: every character stands for itself in either case, a dot for any
  character but a line terminator. It is used at such patterns only.
\<close>

definition literalPattern :: "string \<Rightarrow> rx" where
  "literalPattern pattern =
     foldr (\<lambda>k r. Cat (if k = CHR ''.'' then rx_dot else rx_char_i k) r) pattern Empty"

definition literalRegExp :: "string \<Rightarrow> error + (string \<Rightarrow> bool)" where
  "literalRegExp pattern = Inr (rx_test (literalPattern pattern))"

text \<open>Collaborators for the examples: no model client, the clock at noon of
  2 November 2026 (UTC). And a model client whose every request fails.\<close>

definition exampleServices :: services where
  "exampleServices =
     \<lparr>RegExp_i = literalRegExp,
      gemini = None,
      now_ms = 1793620800000,
      localeDate = ''11/2/2026'',
      isoDate = ''2026-11-02''\<rparr>"


definition emptyDatabase :: database where
  "emptyDatabase =
     \<lparr>client = True, fault = (\<lambda>q. NoFault), appointments = [], chat_logs = []\<rparr>"

definition failingDatabase :: database where
  "failingDatabase =
     \<lparr>client = True, fault = (\<lambda>q. Exception), appointments = [], chat_logs = []\<rparr>"

text \<open>A database whose one chat log, of noon of 2 November 2026, asks a question.\<close>

definition questionDatabase :: database where
  "questionDatabase =
     \<lparr>client = True, fault = (\<lambda>q. NoFault), appointments = [],
      chat_logs = [\<lparr>timestamp = 1793620800000000, message_text = ''I have a question''\<rparr>]\<rparr>"

definition exampleCtx :: "string \<Rightarrow> ctx" where
  "exampleCtx text =
     \<lparr>from_id = Some 1001, chat_id = 1001, message = text,
      patient = Some \<lparr>id' = ''patient-1''\<rparr>\<rparr>"

section \<open>The rules in front of the booking rule\<close>

text \<open>The tokens of the three shortcut rules, and what it takes for a sanitized text to
  get past the emergency rule, the owner rule and the shortcut rules: it is not empty,
  holds no emergency keyword, the owner's name is a well-formed expression that does not
  match, and the text in lower case is no shortcut token.\<close>

definition shortcutTokens :: "string list" where
  "shortcutTokens =
     [''1'', ''book'', ''booking'', ''appointment''] @
     [''2'', ''faq'', ''faqs'', ''info'', ''information''] @
     [''3'', ''staff'', ''agent'', ''human'', ''person'']"

definition passesShortcuts :: "env \<Rightarrow> services \<Rightarrow> (string \<Rightarrow> bool) \<Rightarrow> string \<Rightarrow> bool" where
  "passesShortcuts env svc ownerRegex text \<longleftrightarrow>
     text \<noteq> [] \<and> \<not> containsEmergencyKeywords text \<and>
     RegExp_i svc (OWNER_NAME env) = Inr ownerRegex \<and> \<not> ownerRegex text \<and>
     toLowerCase text \<notin> set shortcutTokens"

section \<open>Properties of the string functions\<close>


lemma set_replace_global: "set (replace_global m s) \<subseteq> set s"
proof (induction m s rule: replace_global.induct)
  case (1 m)
  show ?case by simp
next
  case (2 m c cs)
  show ?case
  proof (cases "m (c # cs)")
    case None
    with 2 show ?thesis by auto
  next
    case (Some n)
    show ?thesis
    proof (cases "n = 0")
      case True
      with Some 2 show ?thesis by auto
    next
      case False
      with Some 2 have "set (replace_global m (drop n (c # cs))) \<subseteq> set (drop n (c # cs))"
        by simp
      also have "\<dots> \<subseteq> set (c # cs)" by (rule set_drop_subset)
      finally show ?thesis using Some False by simp
    qed
  qed
qed

lemma replace_global_no_match:
  "(\<And>t. t \<noteq> [] \<Longrightarrow> suffix t s \<Longrightarrow> m t = None) \<Longrightarrow> replace_global m s = s"
proof (induction s)
  case Nil
  show ?case by simp
next
  case (Cons c cs)
  have "m (c # cs) = None" using Cons.prems by simp
  moreover have "replace_global m cs = cs"
    using Cons.prems by (intro Cons.IH) (simp add: suffix_Cons)
  ultimately show ?case by simp
qed

lemma replace_global_matchAngleBracket:
  "replace_global matchAngleBracket s = filter (\<lambda>c. c \<noteq> CHR ''<'' \<and> c \<noteq> CHR ''>'') s"
  by (induction s) (auto simp: matchAngleBracket_def)

lemma trimStart_self: "trimStart s = s \<longleftrightarrow> s = [] \<or> \<not> isWhiteSpace (hd s)"
  by (simp add: trimStart_def dropWhile_eq_self_iff)

lemma trimEnd_self: "trimEnd s = s \<longleftrightarrow> s = [] \<or> \<not> isWhiteSpace (last s)"
proof -
  have "trimEnd s = s \<longleftrightarrow> dropWhile isWhiteSpace (rev s) = rev s"
    unfolding trimEnd_def by (metis rev_rev_ident)
  also have "\<dots> \<longleftrightarrow> rev s = [] \<or> \<not> isWhiteSpace (hd (rev s))"
    by (rule dropWhile_eq_self_iff)
  finally show ?thesis by (auto simp: hd_rev)
qed

lemma trimEnd_prefix: "prefix (trimEnd s) s"
proof -
  have "rev s = takeWhile isWhiteSpace (rev s) @ dropWhile isWhiteSpace (rev s)" by simp
  then have "s = rev (dropWhile isWhiteSpace (rev s)) @ rev (takeWhile isWhiteSpace (rev s))"
    by (metis rev_append rev_rev_ident)
  then show ?thesis unfolding trimEnd_def by (metis prefixI)
qed

lemma hd_trimStart: "trimStart s \<noteq> [] \<Longrightarrow> \<not> isWhiteSpace (hd (trimStart s))"
  unfolding trimStart_def by (rule hd_dropWhile)

lemma last_trimEnd: "trimEnd s \<noteq> [] \<Longrightarrow> \<not> isWhiteSpace (last (trimEnd s))"
  unfolding trimEnd_def by (simp add: last_rev hd_dropWhile)

lemma trimEnd_idem: "trimEnd (trimEnd s) = trimEnd s"
  using last_trimEnd [of s] by (auto simp: trimEnd_self)

lemma hd_prefix: "prefix p s \<Longrightarrow> p \<noteq> [] \<Longrightarrow> hd p = hd s"
  by (auto simp: prefix_def)

lemma trimStart_trim: "trimStart (trim s) = trim s"
proof (cases "trim s = []")
  case True
  then show ?thesis by (simp add: trimStart_def)
next
  case False
  have p: "prefix (trim s) (trimStart s)" unfolding trim_def by (rule trimEnd_prefix)
  then have ne: "trimStart s \<noteq> []" using False by auto
  have "hd (trim s) = hd (trimStart s)" using p False by (rule hd_prefix)
  moreover have "\<not> isWhiteSpace (hd (trimStart s))"
    using ne by (rule hd_trimStart)
  ultimately show ?thesis by (simp add: trimStart_self)
qed

lemma trimEnd_trim: "trimEnd (trim s) = trim s"
  by (simp add: trim_def trimEnd_idem)

lemma trim_trim: "trim (trim s) = trim s"
  by (simp add: trim_def[of "trim s"] trimStart_trim trimEnd_trim)

lemma trimStart_take: "trimStart s = s \<Longrightarrow> trimStart (take n s) = take n s"
  by (cases n; cases s) (auto simp: trimStart_self)

lemma set_trim: "set (trim s) \<subseteq> set s"
proof -
  have "set (trimEnd (trimStart s)) \<subseteq> set (trimStart s)"
    using trimEnd_prefix set_mono_prefix by blast
  also have "\<dots> \<subseteq> set s" unfolding trimStart_def by (rule set_dropWhileD[THEN subsetI]) 
  finally show ?thesis by (simp add: trim_def)
qed


lemma matchJavascriptProtocol_None:
  "toLower c \<noteq> CHR ''j'' \<Longrightarrow> matchJavascriptProtocol (c # cs) = None"
  by (simp add: matchJavascriptProtocol_def toLowerCase_def)

lemma matchEventHandler_None:
  "toLower c \<noteq> CHR ''o'' \<Longrightarrow> matchEventHandler (c # cs) = None"
  by (cases cs) (simp_all add: matchEventHandler_def toLowerCase_def)

lemma replace_global_id:
  assumes "\<And>c cs. c \<in> set s \<Longrightarrow> m (c # cs) = None"
  shows "replace_global m s = s"
proof (rule replace_global_no_match)
  fix t assume "t \<noteq> []" and "suffix t s"
  then obtain c cs where t: "t = c # cs" by (cases t) auto
  with \<open>suffix t s\<close> have "c \<in> set s" by (auto simp: suffix_def)
  then show "m t = None" unfolding t by (rule assms)
qed


lemma toLower_a_b_space:
  assumes "c \<in> {CHR ''a'', CHR '' '', CHR ''b''}"
  shows "toLower c \<noteq> CHR ''j'' \<and> toLower c \<noteq> CHR ''o''"
proof -
  have "toLower (CHR ''a'') = CHR ''a''" "toLower (CHR '' '') = CHR '' ''"
    "toLower (CHR ''b'') = CHR ''b''"
    by (simp_all add: toLower_def upperCaseLetters_def lowerCaseLetters_def)
  with assms show ?thesis by auto
qed

lemma sanitizeText_padded:
  assumes n: "0 < n" and s: "s = replicate n (CHR ''a'') @ '' b''"
  shows "sanitizeText s = take 2000 s"
proof -
  have ne: "s \<noteq> []" unfolding s by simp
  have set_s: "set s \<subseteq> {CHR ''a'', CHR '' '', CHR ''b''}"
    unfolding s by auto
  have a: "replace_global matchAngleBracket s = s"
    unfolding replace_global_matchAngleBracket
    using set_s by (intro filter_True) auto
  have j: "replace_global matchJavascriptProtocol s = s"
    using set_s toLower_a_b_space
    by (intro replace_global_id matchJavascriptProtocol_None) blast
  have e: "replace_global matchEventHandler s = s"
    using set_s toLower_a_b_space
    by (intro replace_global_id matchEventHandler_None) blast
  have "hd s = CHR ''a''" unfolding s using n by (simp add: hd_append)
  then have st: "trimStart s = s"
    by (simp add: trimStart_self isWhiteSpace_def)
  have "last s = CHR ''b''" unfolding s by simp
  then have "trimEnd s = s"
    by (simp add: trimEnd_self isWhiteSpace_def)
  with st have t: "trim s = s" by (simp add: trim_def)
  from ne show ?thesis unfolding sanitizeText_def a j e t by (simp only: if_False)
qed



lemma take_padded: "take (Suc n) (replicate n (CHR ''a'') @ '' b'') = replicate n (CHR ''a'') @ '' ''"
  by simp

section \<open>Sanitization\<close>

text \<open>
  Claim C9, as amended. The handler for text messages reads the message through
  \<open>sanitizeText\<close> only: two messages with the same sanitized text are handled alike. For
  every input, the sanitized text contains neither \<open><\<close> nor \<open>>\<close>, has at most 2000
  characters and does not start with white space; it is the first 2000 characters of the
  trimmed text \<open>u\<close> that is left after the three replacements, so a longer text is cut
  silently, and it is trimmed at both ends whenever that trimmed text has at most 2000
  characters.
\<close>



theorem sanitizeText_result:
  assumes "u = replace_global matchEventHandler
                 (replace_global matchJavascriptProtocol (replace_global matchAngleBracket t))"
  shows "CHR ''<'' \<notin> set (sanitizeText t) \<and> CHR ''>'' \<notin> set (sanitizeText t) \<and>
         length (sanitizeText t) \<le> 2000 \<and>
         sanitizeText t = take 2000 (trim u) \<and>
         trimStart (sanitizeText t) = sanitizeText t \<and>
         (length (trim u) \<le> 2000 \<longrightarrow> trim (sanitizeText t) = sanitizeText t) \<and>
         (sanitizeText (message ctx) = sanitizeText t \<longrightarrow>
            on_text env svc db ctx = on_text env svc db (ctx\<lparr>message := t\<rparr>))"
proof -
  have eq: "sanitizeText t = take 2000 (trim u)"
  proof (cases "t = []")
    case True
    then show ?thesis
      unfolding assms by (simp add: sanitizeText_def trim_def trimStart_def trimEnd_def)
  next
    case False
    then show ?thesis
      unfolding assms sanitizeText_def by (simp only: if_False)
  qed
  have "set u \<subseteq> set (replace_global matchAngleBracket t)"
    unfolding assms using set_replace_global by (meson subset_trans)
  then have "set (sanitizeText t) \<subseteq> set (replace_global matchAngleBracket t)"
    unfolding eq using set_take_subset set_trim by (meson subset_trans)
  then have angle: "CHR ''<'' \<notin> set (sanitizeText t) \<and> CHR ''>'' \<notin> set (sanitizeText t)"
    unfolding replace_global_matchAngleBracket by auto
  have len: "length (sanitizeText t) \<le> 2000" unfolding eq by simp
  have start: "trimStart (sanitizeText t) = sanitizeText t"
    unfolding eq by (rule trimStart_take) (rule trimStart_trim)
  have whole: "length (trim u) \<le> 2000 \<longrightarrow> trim (sanitizeText t) = sanitizeText t"
    unfolding eq by (simp add: trim_trim)
  have handler: "sanitizeText (message ctx) = sanitizeText t \<longrightarrow>
      on_text env svc db ctx = on_text env svc db (ctx\<lparr>message := t\<rparr>)"
  proof
    assume same: "sanitizeText (message ctx) = sanitizeText t"
    have "patient (ctx\<lparr>message := t\<rparr>) = patient ctx"
      "from_id (ctx\<lparr>message := t\<rparr>) = from_id ctx"
      "chat_id (ctx\<lparr>message := t\<rparr>) = chat_id ctx"
      "message (ctx\<lparr>message := t\<rparr>) = t"
      by simp_all
    then show "on_text env svc db ctx = on_text env svc db (ctx\<lparr>message := t\<rparr>)"
      unfolding on_text_def same by (simp only:)
  qed
  show ?thesis
    by (rule conjI [OF conjunct1 [OF angle] conjI [OF conjunct2 [OF angle]
          conjI [OF len conjI [OF eq conjI [OF start conjI [OF whole handler]]]]]])
qed

text \<open>The cut comes after the trimming: a message of 2001 characters whose 2000th is a
  space is sanitized to a text that ends in that space.\<close>

theorem sanitizeText_not_trimmed:
  "length (replicate 1999 (CHR ''a'') @ '' b'') = 2001 \<and>
   isWhiteSpace (last (sanitizeText (replicate 1999 (CHR ''a'') @ '' b''))) \<and>
   trim (sanitizeText (replicate 1999 (CHR ''a'') @ '' b'')) \<noteq>
     sanitizeText (replicate 1999 (CHR ''a'') @ '' b'')"
proof -
  let ?r = "sanitizeText (replicate 1999 (CHR ''a'') @ '' b'')"
  have "(2000::nat) = Suc 1999" by simp
  then have "take 2000 (replicate 1999 (CHR ''a'') @ '' b'') = replicate 1999 (CHR ''a'') @ '' ''"
    using take_padded [of 1999] by (simp only:)
  moreover have "?r = take 2000 (replicate 1999 (CHR ''a'') @ '' b'')"
    by (rule sanitizeText_padded [of 1999]) simp_all
  ultimately have r: "?r = replicate 1999 (CHR ''a'') @ '' ''" by (simp only:)
  have l: "length (replicate 1999 (CHR ''a'') @ '' b'') = 2001" by simp
  have w: "isWhiteSpace (last ?r)" unfolding r by (simp add: isWhiteSpace_def)
  have "?r \<noteq> []" unfolding r by simp
  with w have "trimEnd ?r \<noteq> ?r" by (simp only: trimEnd_self) simp
  moreover have "trimEnd (trim ?r) = trim ?r" by (rule trimEnd_trim)
  ultimately have "trim ?r \<noteq> ?r" by metis
  with l w show ?thesis by (intro conjI)
qed

text \<open>The theorem at a message with markup and white space around it.\<close>


theorem sanitizeText_result_witness:
  "sanitizeText ''  <b>Hi</b> onclick=foo  '' = ''bHi/b foo'' \<and>
   CHR ''<'' \<notin> set (sanitizeText ''  <b>Hi</b> onclick=foo  '') \<and>
   CHR ''>'' \<notin> set (sanitizeText ''  <b>Hi</b> onclick=foo  '') \<and>
   length (sanitizeText ''  <b>Hi</b> onclick=foo  '') \<le> 2000 \<and>
   trim (sanitizeText ''  <b>Hi</b> onclick=foo  '') = sanitizeText ''  <b>Hi</b> onclick=foo  '' \<and>
   on_text defaultEnv exampleServices emptyDatabase (exampleCtx ''<bHi/b> foo'') =
   on_text defaultEnv exampleServices emptyDatabase (exampleCtx ''  <b>Hi</b> onclick=foo  '')"
proof -
  let ?t = "''  <b>Hi</b> onclick=foo  ''"
  let ?u = "replace_global matchEventHandler
              (replace_global matchJavascriptProtocol (replace_global matchAngleBracket ?t))"
  have u: "?u = ''  bHi/b foo  ''" by code_simp
  have tu: "trim ''  bHi/b foo  '' = ''bHi/b foo''" by code_simp
  have s: "sanitizeText ?t = ''bHi/b foo''" by code_simp
  have s': "sanitizeText ''<bHi/b> foo'' = ''bHi/b foo''" by code_simp
  have m: "message (exampleCtx ''<bHi/b> foo'') = ''<bHi/b> foo''"
    "(exampleCtx ''<bHi/b> foo'')\<lparr>message := ?t\<rparr> = exampleCtx ?t"
    by (simp_all add: exampleCtx_def)
  note r = sanitizeText_result [OF refl, of ?t "exampleCtx ''<bHi/b> foo''" defaultEnv
      exampleServices emptyDatabase]
  have l: "length (trim ?u) \<le> 2000" unfolding u tu by simp
  have e: "sanitizeText (message (exampleCtx ''<bHi/b> foo'')) = sanitizeText ?t"
    unfolding m s s' by (rule refl)
  from r l e have "CHR ''<'' \<notin> set (sanitizeText ?t)" "CHR ''>'' \<notin> set (sanitizeText ?t)"
    "length (sanitizeText ?t) \<le> 2000" "trim (sanitizeText ?t) = sanitizeText ?t"
    "on_text defaultEnv exampleServices emptyDatabase (exampleCtx ''<bHi/b> foo'') =
     on_text defaultEnv exampleServices emptyDatabase ((exampleCtx ''<bHi/b> foo'')\<lparr>message := ?t\<rparr>)"
    by blast+
  with s show ?thesis unfolding m by (intro conjI)
qed

section \<open>The emergency rule\<close>


lemma str_includes_iff: "str_includes s k \<longleftrightarrow> (\<exists>pre post. s = pre @ k @ post)"
proof (induction s)
  case Nil
  show ?case by auto
next
  case (Cons c cs)
  show ?case
  proof
    assume "str_includes (c # cs) k"
    then consider "prefix k (c # cs)" | "str_includes cs k" by auto
    then show "\<exists>pre post. c # cs = pre @ k @ post"
    proof cases
      case 1
      then obtain post where "c # cs = k @ post" by (auto simp: prefix_def)
      then have "c # cs = [] @ k @ post" by simp
      then show ?thesis by blast
    next
      case 2
      with Cons.IH obtain pre post where "cs = pre @ k @ post" by blast
      then have "c # cs = (c # pre) @ k @ post" by simp
      then show ?thesis by blast
    qed
  next
    assume "\<exists>pre post. c # cs = pre @ k @ post"
    then obtain pre post where eq: "c # cs = pre @ k @ post" by blast
    show "str_includes (c # cs) k"
    proof (cases pre)
      case Nil
      with eq have "prefix k (c # cs)" by (simp add: prefix_def)
      then show ?thesis by simp
    next
      case (Cons p pre')
      with eq have "cs = pre' @ k @ post" by simp
      with Cons.IH have "str_includes cs k" by blast
      then show ?thesis by simp
    qed
  qed
qed

lemma containsEmergencyKeywords_iff:
  "containsEmergencyKeywords text \<longleftrightarrow>
     (\<exists>keyword \<in> set emergencyKeywords. \<exists>pre w post.
        text = pre @ w @ post \<and> toLowerCase w = keyword)"
proof -
  have "str_includes (toLowerCase text) k \<longleftrightarrow>
      (\<exists>pre w post. text = pre @ w @ post \<and> toLowerCase w = k)" for k
  proof
    assume "str_includes (toLowerCase text) k"
    then obtain a b where ab: "map toLower text = a @ k @ b"
      unfolding str_includes_iff toLowerCase_def by blast
    then obtain pre r where r: "text = pre @ r" "map toLower pre = a" "map toLower r = k @ b"
      by (metis map_eq_append_conv)
    then obtain w post where "r = w @ post" "map toLower w = k" "map toLower post = b"
      by (metis map_eq_append_conv)
    with r show "\<exists>pre w post. text = pre @ w @ post \<and> toLowerCase w = k"
      unfolding toLowerCase_def by blast
  next
    assume "\<exists>pre w post. text = pre @ w @ post \<and> toLowerCase w = k"
    then obtain pre w post where "text = pre @ w @ post" "toLowerCase w = k" by blast
    then have "toLowerCase text = toLowerCase pre @ k @ toLowerCase post"
      by (simp add: toLowerCase_def)
    then show "str_includes (toLowerCase text) k" unfolding str_includes_iff by blast
  qed
  then show ?thesis
    unfolding containsEmergencyKeywords_def Let_def list_ex_iff by simp
qed

lemma emergencyKeywords_nonempty: "keyword \<in> set emergencyKeywords \<Longrightarrow> keyword \<noteq> []"
  by (auto simp: emergencyKeywords_def)

lemma containsEmergencyKeywords_nonempty:
  assumes "containsEmergencyKeywords text"
  shows "text \<noteq> []"
proof
  assume "text = []"
  with assms obtain keyword pre w post where
    k: "keyword \<in> set emergencyKeywords" "[] = pre @ w @ post" "toLowerCase w = keyword"
    unfolding containsEmergencyKeywords_iff by blast
  then have "keyword = []" by (simp add: toLowerCase_def)
  with k(1) show False using emergencyKeywords_nonempty by blast
qed

lemma on_text_emergency:
  assumes "containsEmergencyKeywords (sanitizeText (message ctx))"
  shows "on_text env svc db ctx = Inr (db, [ReplyMarkdown (getEmergencyResponse env)])"
proof -
  have "sanitizeText (message ctx) \<noteq> []"
    using assms by (rule containsEmergencyKeywords_nonempty)
  with assms show ?thesis unfolding on_text_def Let_def by (simp only: if_True if_False)
qed

lemma classify_emergency:
  "containsEmergencyKeywords text \<Longrightarrow> classify ownerRegex text = EmergencyConcern"
  by (simp only: classify_def if_True)

text \<open>
  Claim C1. When the sanitized text of a message contains an emergency keyword, in any
  mix of upper and lower case, the handler sends the emergency response and does nothing
  else: no other reply, no call of the storage module, no request to the model. The same
  holds behind \<open>safeHandler\<close>, and the text is classified as an emergency concern,
  whatever else it looks like.
\<close>

theorem emergency_dominates:
  assumes "keyword \<in> set emergencyKeywords"
    and "sanitizeText (message ctx) = pre @ w @ post"
    and "toLowerCase w = keyword"
  shows "on_text env svc db ctx = Inr (db, [ReplyMarkdown (getEmergencyResponse env)]) \<and>
         safeHandler (on_text env svc) db ctx = (db, [ReplyMarkdown (getEmergencyResponse env)]) \<and>
         classify ownerRegex (sanitizeText (message ctx)) = EmergencyConcern"
proof -
  have c: "containsEmergencyKeywords (sanitizeText (message ctx))"
    unfolding containsEmergencyKeywords_iff using assms by blast
  then have h: "on_text env svc db ctx = Inr (db, [ReplyMarkdown (getEmergencyResponse env)])"
    by (rule on_text_emergency)
  then have "safeHandler (on_text env svc) db ctx = (db, [ReplyMarkdown (getEmergencyResponse env)])"
    by (simp add: safeHandler_def)
  moreover have "classify ownerRegex (sanitizeText (message ctx)) = EmergencyConcern"
    using c by (rule classify_emergency)
  ultimately show ?thesis using h by (intro conjI)
qed

text \<open>The text of the specification's example contains \<open>chest pain\<close> and is a well-formed
  booking as well; it gets the emergency response.\<close>

theorem emergency_dominates_witness:
  "looksLikeBooking ''I have chest pain, John Doe, Friday 3pm'' \<and>
   validateBookingFormat ''I have chest pain, John Doe, Friday 3pm'' =
     Valid ''I have chest pain'' ''John Doe'' \<and>
   on_text defaultEnv exampleServices emptyDatabase
     (exampleCtx ''I have chest pain, John Doe, Friday 3pm'') =
     Inr (emptyDatabase, [ReplyMarkdown (getEmergencyResponse defaultEnv)]) \<and>
   classify (rx_test (literalPattern (OWNER_NAME defaultEnv)))
     (sanitizeText ''I have chest pain, John Doe, Friday 3pm'') = EmergencyConcern"
proof -
  let ?t = "''I have chest pain, John Doe, Friday 3pm''"
  have b: "looksLikeBooking ?t" by code_simp
  have v: "validateBookingFormat ?t = Valid ''I have chest pain'' ''John Doe''" by code_simp
  have s: "sanitizeText ?t = ?t" by code_simp
  have k: "''chest pain'' \<in> set emergencyKeywords" by (simp add: emergencyKeywords_def)
  have l: "toLowerCase ''chest pain'' = ''chest pain''" by code_simp
  have m: "sanitizeText (message (exampleCtx ?t)) = ''I have '' @ ''chest pain'' @ '', John Doe, Friday 3pm''"
    unfolding exampleCtx_def by (simp add: s)
  note r = emergency_dominates [OF k m l, of defaultEnv exampleServices emptyDatabase
      "rx_test (literalPattern (OWNER_NAME defaultEnv))"]
  have "message (exampleCtx ?t) = ?t" by (simp add: exampleCtx_def)
  with r b v show ?thesis by (simp only:)
qed

section \<open>The branches of the handler for text messages\<close>

lemma shortcutTokens_split:
  "s \<notin> set shortcutTokens \<longleftrightarrow>
     s \<notin> set [''1'', ''book'', ''booking'', ''appointment''] \<and>
     s \<notin> set [''2'', ''faq'', ''faqs'', ''info'', ''information''] \<and>
     s \<notin> set [''3'', ''staff'', ''agent'', ''human'', ''person'']"
  unfolding shortcutTokens_def set_append by blast

lemma on_text_empty:
  "sanitizeText (message ctx) = [] \<Longrightarrow> on_text env svc db ctx = Inr (db, [])"
  unfolding on_text_def Let_def by (simp only: if_True simp_thms)

lemma on_text_regexp_error:
  assumes "sanitizeText (message ctx) \<noteq> []"
    and "\<not> containsEmergencyKeywords (sanitizeText (message ctx))"
    and "RegExp_i svc (OWNER_NAME env) = Inl e"
  shows "on_text env svc db ctx = Inl e"
  unfolding on_text_def Let_def using assms by (simp only: if_False sum.case)

lemma on_text_owner:
  assumes "sanitizeText (message ctx) \<noteq> []"
    and "\<not> containsEmergencyKeywords (sanitizeText (message ctx))"
    and "RegExp_i svc (OWNER_NAME env) = Inr ownerRegex"
    and "ownerRegex (sanitizeText (message ctx))"
  shows "on_text env svc db ctx = Inr (db, [Reply (getOwnerProfile env)])"
  unfolding on_text_def Let_def using assms by (simp only: if_False if_True sum.case)

lemma on_text_booking_instructions:
  assumes "sanitizeText (message ctx) \<noteq> []"
    and "\<not> containsEmergencyKeywords (sanitizeText (message ctx))"
    and "RegExp_i svc (OWNER_NAME env) = Inr ownerRegex"
    and "\<not> ownerRegex (sanitizeText (message ctx))"
    and "toLowerCase (sanitizeText (message ctx)) \<in> set [''1'', ''book'', ''booking'', ''appointment'']"
  shows "on_text env svc db ctx = Inr (db, [Reply getBookingInstructions])"
  unfolding on_text_def Let_def using assms by (simp only: if_False if_True sum.case)

lemma on_text_faq:
  assumes "sanitizeText (message ctx) \<noteq> []"
    and "\<not> containsEmergencyKeywords (sanitizeText (message ctx))"
    and "RegExp_i svc (OWNER_NAME env) = Inr ownerRegex"
    and "\<not> ownerRegex (sanitizeText (message ctx))"
    and "toLowerCase (sanitizeText (message ctx)) \<notin> set [''1'', ''book'', ''booking'', ''appointment'']"
    and "toLowerCase (sanitizeText (message ctx)) \<in> set [''2'', ''faq'', ''faqs'', ''info'', ''information'']"
  shows "on_text env svc db ctx = Inr (db, [Reply getFAQMenu])"
  unfolding on_text_def Let_def using assms by (simp only: if_False if_True sum.case)

lemma on_text_staff:
  assumes "sanitizeText (message ctx) \<noteq> []"
    and "\<not> containsEmergencyKeywords (sanitizeText (message ctx))"
    and "RegExp_i svc (OWNER_NAME env) = Inr ownerRegex"
    and "\<not> ownerRegex (sanitizeText (message ctx))"
    and "toLowerCase (sanitizeText (message ctx)) \<notin> set [''1'', ''book'', ''booking'', ''appointment'']"
    and "toLowerCase (sanitizeText (message ctx)) \<notin> set [''2'', ''faq'', ''faqs'', ''info'', ''information'']"
    and "toLowerCase (sanitizeText (message ctx)) \<in> set [''3'', ''staff'', ''agent'', ''human'', ''person'']"
  shows "on_text env svc db ctx = Inr (db, [Reply getStaffConnectionMessage])"
  unfolding on_text_def Let_def using assms by (simp only: if_False if_True sum.case)

text \<open>Behind the shortcut rules the handler is the booking rule, the health rule and the
  fallback.\<close>

lemma on_text_passesShortcuts:
  assumes "passesShortcuts env svc ownerRegex (sanitizeText (message ctx))"
  shows "on_text env svc db ctx =
    (let text = sanitizeText (message ctx) in
     if looksLikeBooking text then
       (case validateBookingFormat text of
          Valid name timeSlot \<Rightarrow>
            (case patient ctx of
               None \<Rightarrow> Inr (db, [Reply (getBookingReply text)])
             | Some p \<Rightarrow>
                 (case from_id ctx of
                    None \<Rightarrow> Inl TypeError
                  | Some userId \<Rightarrow>
                      (let appointmentData =
                             \<lparr>patient_id = id' p,
                              full_name = name,
                              preferred_datetime = timeSlot,
                              telegram_user_id = userId,
                              telegram_chat_id = chat_id ctx,
                              raw_request = text\<rparr>;
                           (db', created) =
                             createAppointment db (now_ms svc) appointmentData
                       in Inr (db', [DbCall (CreateAppointment appointmentData),
                                     Reply (getBookingReply text)]))))
        | Invalid \<Rightarrow> Inr (db, [Reply getInvalidBookingMessage]))
     else if hasHealthKeywords text then Inr (db, [Reply getHealthResponse])
     else
       (let (aiResponse, requests) = llmTextReply svc text
        in Inr (db, requests @ [Reply aiResponse])))"
proof -
  let ?text = "sanitizeText (message ctx)"
  from assms have a: "?text \<noteq> []" "\<not> containsEmergencyKeywords ?text"
    "RegExp_i svc (OWNER_NAME env) = Inr ownerRegex" "\<not> ownerRegex ?text"
    "toLowerCase ?text \<notin> set [''1'', ''book'', ''booking'', ''appointment'']"
    "toLowerCase ?text \<notin> set [''2'', ''faq'', ''faqs'', ''info'', ''information'']"
    "toLowerCase ?text \<notin> set [''3'', ''staff'', ''agent'', ''human'', ''person'']"
    unfolding passesShortcuts_def shortcutTokens_split by blast+
  show ?thesis
    unfolding on_text_def Let_def using a by (simp only: if_False sum.case)
qed

text \<open>With a well-formed owner expression and a non-empty sanitized text, the handler does
  what the resolver does for the intent of the text.\<close>


lemma on_text_resolve:
  assumes R: "RegExp_i svc (OWNER_NAME env) = Inr ownerRegex"
    and ne: "sanitizeText (message ctx) \<noteq> []"
  shows "on_text env svc db ctx =
         resolve env svc db ctx (sanitizeText (message ctx))
           (classify ownerRegex (sanitizeText (message ctx)))"
proof -
  let ?text = "sanitizeText (message ctx)"
  let ?s1 = "set [''1'', ''book'', ''booking'', ''appointment'']"
  let ?s2 = "set [''2'', ''faq'', ''faqs'', ''info'', ''information'']"
  let ?s3 = "set [''3'', ''staff'', ''agent'', ''human'', ''person'']"
  consider (emergency) "containsEmergencyKeywords ?text"
    | (owner) "\<not> containsEmergencyKeywords ?text" "ownerRegex ?text"
    | (book) "\<not> containsEmergencyKeywords ?text" "\<not> ownerRegex ?text" "toLowerCase ?text \<in> ?s1"
    | (faq) "\<not> containsEmergencyKeywords ?text" "\<not> ownerRegex ?text" "toLowerCase ?text \<notin> ?s1"
        "toLowerCase ?text \<in> ?s2"
    | (staff) "\<not> containsEmergencyKeywords ?text" "\<not> ownerRegex ?text" "toLowerCase ?text \<notin> ?s1"
        "toLowerCase ?text \<notin> ?s2" "toLowerCase ?text \<in> ?s3"
    | (rest) "\<not> containsEmergencyKeywords ?text" "\<not> ownerRegex ?text" "toLowerCase ?text \<notin> ?s1"
        "toLowerCase ?text \<notin> ?s2" "toLowerCase ?text \<notin> ?s3"
    by blast
  then show ?thesis
  proof cases
    case emergency
    then show ?thesis
      by (simp only: on_text_emergency classify_emergency resolve.simps)
  next
    case owner
    have "classify ownerRegex ?text = OwnerQuery"
      unfolding classify_def using owner by (simp only: if_True if_False)
    with on_text_owner [OF ne owner(1) R owner(2)] show ?thesis
      by (simp only: resolve.simps)
  next
    case book
    have "classify ownerRegex ?text = BookingInstructions"
      unfolding classify_def using book by (simp only: if_True if_False)
    with on_text_booking_instructions [OF ne book(1) R book(2) book(3)] show ?thesis
      by (simp only: resolve.simps)
  next
    case faq
    have "classify ownerRegex ?text = FAQMenu"
      unfolding classify_def using faq by (simp only: if_True if_False)
    with on_text_faq [OF ne faq(1) R faq(2) faq(3) faq(4)] show ?thesis
      by (simp only: resolve.simps)
  next
    case staff
    have "classify ownerRegex ?text = StaffConnect"
      unfolding classify_def using staff by (simp only: if_True if_False)
    with on_text_staff [OF ne staff(1) R staff(2) staff(3) staff(4) staff(5)] show ?thesis
      by (simp only: resolve.simps)
  next
    case rest
    have c: "classify ownerRegex ?text =
        (if looksLikeBooking ?text then BookingSubmission (validateBookingFormat ?text)
         else if hasHealthKeywords ?text then HealthConcern else Unrecognized)"
      unfolding classify_def using rest by (simp only: if_False)
    have "passesShortcuts env svc ownerRegex ?text"
      unfolding passesShortcuts_def shortcutTokens_split using ne R rest by blast
    then have h: "on_text env svc db ctx =
       (let text = sanitizeText (message ctx) in
     if looksLikeBooking text then
       (case validateBookingFormat text of
          Valid name timeSlot \<Rightarrow>
            (case patient ctx of
               None \<Rightarrow> Inr (db, [Reply (getBookingReply text)])
             | Some p \<Rightarrow>
                 (case from_id ctx of
                    None \<Rightarrow> Inl TypeError
                  | Some userId \<Rightarrow>
                      (let appointmentData =
                             \<lparr>patient_id = id' p,
                              full_name = name,
                              preferred_datetime = timeSlot,
                              telegram_user_id = userId,
                              telegram_chat_id = chat_id ctx,
                              raw_request = text\<rparr>;
                           (db', created) =
                             createAppointment db (now_ms svc) appointmentData
                       in Inr (db', [DbCall (CreateAppointment appointmentData),
                                     Reply (getBookingReply text)]))))
        | Invalid \<Rightarrow> Inr (db, [Reply getInvalidBookingMessage]))
     else if hasHealthKeywords text then Inr (db, [Reply getHealthResponse])
     else
       (let (aiResponse, requests) = llmTextReply svc text
        in Inr (db, requests @ [Reply aiResponse])))"
      by (rule on_text_passesShortcuts)
    show ?thesis
      unfolding h c
      by (simp add: Let_def split: validation.split option.split prod.split)
  qed
qed

section \<open>Classification\<close>


lemma llmTextReply_requests: "e \<in> set (snd (llmTextReply svc text)) \<Longrightarrow> isAiCall e"
  by (auto simp: llmTextReply_def Let_def split: option.splits sum.splits)

lemma llmTextReply_no_reply: "filter isReply (snd (llmTextReply svc text)) = []"
proof -
  have "\<not> isReply e" if "e \<in> set (snd (llmTextReply svc text))" for e
    using llmTextReply_requests [OF that] by (cases e) simp_all
  then show ?thesis by (simp add: filter_empty_conv)
qed

lemma resolve_one_reply:
  assumes "resolve env svc db ctx text i = Inr (db', es)"
  shows "length (filter isReply es) = 1"
proof (cases i)
  case (BookingSubmission v)
  show ?thesis
  proof (cases v)
    case Invalid
    with BookingSubmission assms show ?thesis by auto
  next
    case (Valid name timeSlot)
    with BookingSubmission assms show ?thesis
      by (auto simp: Let_def split: option.splits)
  qed
next
  case Unrecognized
  with assms show ?thesis by (auto simp: llmTextReply_no_reply)
qed (use assms in auto)

lemma exampleServices_RegExp:
  "RegExp_i exampleServices (OWNER_NAME defaultEnv) =
     Inr (rx_test (literalPattern (OWNER_NAME defaultEnv)))"
  by (simp add: exampleServices_def literalRegExp_def)

section \<open>Booking submissions\<close>


lemma js_split_not_Nil: "js_split sep s \<noteq> []"
  by (induction s) (auto split: list.splits)

lemma js_split_first: "sep \<notin> set a \<Longrightarrow> js_split sep (a @ sep # rest) = a # js_split sep rest"
  by (induction a) auto

lemma js_split_hd: "js_split sep s ! 0 = takeWhile (\<lambda>c. c \<noteq> sep) s"
proof (induction s)
  case Nil
  show ?case by simp
next
  case (Cons c cs)
  then show ?case
    using js_split_not_Nil [of sep cs] by (cases "js_split sep cs") auto
qed

lemma js_split_two_commas:
  assumes "sep \<notin> set a" and "sep \<notin> set b"
  shows "js_split sep (a @ sep # b @ sep # c) = a # b # js_split sep c"
  using assms by (simp add: js_split_first)

lemma validateBookingFormat_valid_iff:
  "valid (validateBookingFormat text) \<longleftrightarrow>
     2 \<le> length (js_split (CHR '','') text) \<and>
     2 < length (trim (js_split (CHR '','') text ! 0)) \<and>
     2 < length (trim (js_split (CHR '','') text ! 1))"
proof (cases "text = []")
  case True
  then show ?thesis by (simp add: validateBookingFormat_def)
next
  case False
  show ?thesis
  proof (cases "js_split (CHR '','') text")
    case Nil
    with False show ?thesis by (simp add: validateBookingFormat_def)
  next
    case (Cons p0 ps)
    show ?thesis
    proof (cases ps)
      case Nil
      with Cons False show ?thesis by (simp add: validateBookingFormat_def)
    next
      case (Cons p1 rest)
      with \<open>js_split (CHR '','') text = p0 # ps\<close> False show ?thesis
        by (simp add: validateBookingFormat_def Let_def)
    qed
  qed
qed

lemma validateBookingFormat_Valid:
  assumes "validateBookingFormat text = Valid name timeSlot"
  shows "name = trim (js_split (CHR '','') text ! 0) \<and>
         timeSlot = trim (js_split (CHR '','') text ! 1)"
proof (cases "js_split (CHR '','') text")
  case Nil
  with assms show ?thesis by (simp add: validateBookingFormat_def split: if_splits)
next
  case (Cons p0 ps)
  show ?thesis
  proof (cases ps)
    case Nil
    with Cons assms show ?thesis by (simp add: validateBookingFormat_def split: if_splits)
  next
    case (Cons p1 rest)
    with \<open>js_split (CHR '','') text = p0 # ps\<close> assms show ?thesis
      by (simp add: validateBookingFormat_def Let_def split: if_splits)
  qed
qed

lemma on_text_booking_invalid:
  assumes "passesShortcuts env svc ownerRegex (sanitizeText (message ctx))"
    and "looksLikeBooking (sanitizeText (message ctx))"
    and "\<not> valid (validateBookingFormat (sanitizeText (message ctx)))"
  shows "on_text env svc db ctx = Inr (db, [Reply getInvalidBookingMessage])"
proof -
  have "validateBookingFormat (sanitizeText (message ctx)) = Invalid"
    using assms(3) by (cases "validateBookingFormat (sanitizeText (message ctx))") simp_all
  with assms(2) show ?thesis
    unfolding on_text_passesShortcuts [OF assms(1)] Let_def
    by (simp only: if_True validation.case)
qed

lemma on_text_booking_valid:
  assumes "passesShortcuts env svc ownerRegex (sanitizeText (message ctx))"
    and "looksLikeBooking (sanitizeText (message ctx))"
    and "validateBookingFormat (sanitizeText (message ctx)) = Valid name timeSlot"
  shows "on_text env svc db ctx =
     (case patient ctx of
        None \<Rightarrow> Inr (db, [Reply (getBookingReply (sanitizeText (message ctx)))])
      | Some p \<Rightarrow>
          (case from_id ctx of
             None \<Rightarrow> Inl TypeError
           | Some userId \<Rightarrow>
               Inr (fst (createAppointment db (now_ms svc)
                      \<lparr>patient_id = id' p, full_name = name, preferred_datetime = timeSlot,
                       telegram_user_id = userId, telegram_chat_id = chat_id ctx,
                       raw_request = sanitizeText (message ctx)\<rparr>),
                    [DbCall (CreateAppointment
                      \<lparr>patient_id = id' p, full_name = name, preferred_datetime = timeSlot,
                       telegram_user_id = userId, telegram_chat_id = chat_id ctx,
                       raw_request = sanitizeText (message ctx)\<rparr>),
                     Reply (getBookingReply (sanitizeText (message ctx)))])))"
  unfolding on_text_passesShortcuts [OF assms(1)] Let_def using assms(2,3)
  by (simp add: split_beta split: option.split)

lemma on_text_health:
  assumes "passesShortcuts env svc ownerRegex (sanitizeText (message ctx))"
    and "\<not> looksLikeBooking (sanitizeText (message ctx))"
    and "hasHealthKeywords (sanitizeText (message ctx))"
  shows "on_text env svc db ctx = Inr (db, [Reply getHealthResponse])"
  unfolding on_text_passesShortcuts [OF assms(1)] Let_def using assms(2,3)
  by (simp only: if_True if_False)

text \<open>
  Claim C4. A booking text is valid exactly when splitting it at the commas gives at
  least two parts and both the trimmed first part (the text before the first comma) and
  the trimmed second part are longer than two characters; a valid text yields these two
  as name and time slot. A text that reaches the booking rule and is not valid gets the
  format-correction message as the only effect, so the storage module is not called.
\<close>

theorem booking_validation:
  "(valid (validateBookingFormat text) \<longleftrightarrow>
      2 \<le> length (js_split (CHR '','') text) \<and>
      2 < length (trim (js_split (CHR '','') text ! 0)) \<and>
      2 < length (trim (js_split (CHR '','') text ! 1))) \<and>
   js_split (CHR '','') text ! 0 = takeWhile (\<lambda>c. c \<noteq> CHR '','') text \<and>
   (validateBookingFormat text = Valid name timeSlot \<longrightarrow>
      name = trim (js_split (CHR '','') text ! 0) \<and>
      timeSlot = trim (js_split (CHR '','') text ! 1)) \<and>
   (passesShortcuts env svc ownerRegex text \<and> looksLikeBooking text \<and>
    \<not> valid (validateBookingFormat text) \<and> sanitizeText (message ctx) = text \<longrightarrow>
      on_text env svc db ctx = Inr (db, [Reply getInvalidBookingMessage]))"
proof -
  have "on_text env svc db ctx = Inr (db, [Reply getInvalidBookingMessage])"
    if "passesShortcuts env svc ownerRegex text" "looksLikeBooking text"
      "\<not> valid (validateBookingFormat text)" "sanitizeText (message ctx) = text"
    using that on_text_booking_invalid [of env svc ownerRegex ctx db] by simp
  then show ?thesis
    using validateBookingFormat_valid_iff [of "text"] js_split_hd [of "CHR '',''" "text"]
      validateBookingFormat_Valid [of "text" name timeSlot]
    by blast
qed

text \<open>The text \<open>A, B\<close> reaches the booking rule and is invalid, as both parts have one
  character; the booking of the instructions is valid.\<close>

theorem booking_validation_witness:
  "validateBookingFormat ''A, B'' = Invalid \<and>
   on_text defaultEnv exampleServices emptyDatabase (exampleCtx ''A, B'') =
     Inr (emptyDatabase, [Reply getInvalidBookingMessage]) \<and>
   validateBookingFormat ''Ada Lovelace, Friday 3pm'' = Valid ''Ada Lovelace'' ''Friday 3pm''"
proof -
  let ?re = "rx_test (literalPattern (OWNER_NAME defaultEnv))"
  have p: "passesShortcuts defaultEnv exampleServices ?re ''A, B''"
    unfolding passesShortcuts_def
    by (intro conjI) (simp, code_simp, rule exampleServices_RegExp, code_simp, code_simp)
  have l: "looksLikeBooking ''A, B''" by code_simp
  have v: "validateBookingFormat ''A, B'' = Invalid" by code_simp
  then have nv: "\<not> valid (validateBookingFormat ''A, B'')" by simp
  have s: "sanitizeText (message (exampleCtx ''A, B'')) = ''A, B''"
    unfolding exampleCtx_def ctx.simps by code_simp
  have a: "validateBookingFormat ''Ada Lovelace, Friday 3pm'' = Valid ''Ada Lovelace'' ''Friday 3pm''"
    by code_simp
  note r = booking_validation [of "''A, B''" _ _ defaultEnv exampleServices ?re
      "exampleCtx ''A, B''" emptyDatabase]
  from r p l nv s
  have "on_text defaultEnv exampleServices emptyDatabase (exampleCtx ''A, B'') =
     Inr (emptyDatabase, [Reply getInvalidBookingMessage])"
    by blast
  with v a show ?thesis by (intro conjI)
qed

lemma joinLines_third:
  "joinLines (l1 # l2 # (p @ t @ q) # l4 # rest) =
   (l1 @ [CHR 0x0A] @ l2 @ [CHR 0x0A] @ p) @ t @ (q @ [CHR 0x0A] @ joinLines (l4 # rest))"
  by simp

lemma getBookingReply_includes: "\<exists>pre post. getBookingReply t = pre @ t @ post"
  unfolding getBookingReply_def joinLines_third by blast

text \<open>
  Claim C5, as amended. For a valid booking submission (a message whose sanitized text
  reaches the booking rule and is valid) of a sender known to the middleware, the one
  reply is the confirmation, which holds the sanitized text word for word; it holds the
  message itself word for word when sanitization leaves the message as it is. The effects
  of the handler are the same for every state of the database, so what becomes of the
  call of \<open>createAppointment\<close> (no client, an error, an exception, a stored row) has no
  influence on the reply.
\<close>

theorem booking_confirmation:
  assumes "passesShortcuts env svc ownerRegex text"
    and "looksLikeBooking text"
    and "validateBookingFormat text = Valid name timeSlot"
    and "sanitizeText (message ctx) = text"
    and "patient ctx = None \<or> from_id ctx \<noteq> None"
  shows "filter isReply (snd (safeHandler (on_text env svc) db ctx)) =
           [Reply (getBookingReply text)] \<and>
         snd (safeHandler (on_text env svc) db2 ctx) =
           snd (safeHandler (on_text env svc) db ctx) \<and>
         (\<exists>pre post. getBookingReply text = pre @ text @ post) \<and>
         (sanitizeText (message ctx) = message ctx \<longrightarrow>
            (\<exists>pre post. getBookingReply text = pre @ message ctx @ post))"
proof -
  note h = on_text_booking_valid [of env svc ownerRegex ctx name timeSlot,
      unfolded assms(4), OF assms(1,2,3)]
  have i: "\<exists>pre post. getBookingReply text = pre @ text @ post"
    by (rule getBookingReply_includes)
  have m: "sanitizeText (message ctx) = message ctx \<longrightarrow>
      (\<exists>pre post. getBookingReply text = pre @ message ctx @ post)"
  proof
    assume "sanitizeText (message ctx) = message ctx"
    with assms(4) have "message ctx = text" by simp
    with i show "\<exists>pre post. getBookingReply text = pre @ message ctx @ post" by simp
  qed
  have r: "filter isReply (snd (safeHandler (on_text env svc) db ctx)) =
           [Reply (getBookingReply text)] \<and>
         snd (safeHandler (on_text env svc) db2 ctx) =
           snd (safeHandler (on_text env svc) db ctx)"
  proof (cases "patient ctx")
    case None
    then show ?thesis by (simp add: h safeHandler_def)
  next
    case (Some p)
    with assms(5) obtain userId where "from_id ctx = Some userId" by auto
    with Some show ?thesis by (simp add: h safeHandler_def)
  qed
  from r i m show ?thesis by (intro conjI) (erule conjunct1, erule conjunct2)
qed

text \<open>The booking of the specification's example, which sanitization leaves as it is, once
  with a working database and once with one whose every query throws.\<close>

theorem booking_confirmation_witness:
  "validateBookingFormat ''Ada Lovelace, Friday 3pm'' = Valid ''Ada Lovelace'' ''Friday 3pm'' \<and>
   sanitizeText ''Ada Lovelace, Friday 3pm'' = ''Ada Lovelace, Friday 3pm'' \<and>
   filter isReply (snd (safeHandler (on_text defaultEnv exampleServices) emptyDatabase
      (exampleCtx ''Ada Lovelace, Friday 3pm''))) =
     [Reply (getBookingReply ''Ada Lovelace, Friday 3pm'')] \<and>
   snd (safeHandler (on_text defaultEnv exampleServices) failingDatabase
      (exampleCtx ''Ada Lovelace, Friday 3pm'')) =
   snd (safeHandler (on_text defaultEnv exampleServices) emptyDatabase
      (exampleCtx ''Ada Lovelace, Friday 3pm'')) \<and>
   (\<exists>pre post. getBookingReply ''Ada Lovelace, Friday 3pm'' =
      pre @ message (exampleCtx ''Ada Lovelace, Friday 3pm'') @ post)"
proof -
  let ?t = "''Ada Lovelace, Friday 3pm''"
  let ?re = "rx_test (literalPattern (OWNER_NAME defaultEnv))"
  have p: "passesShortcuts defaultEnv exampleServices ?re ?t"
    unfolding passesShortcuts_def
    by (intro conjI) (simp, code_simp, rule exampleServices_RegExp, code_simp, code_simp)
  have l: "looksLikeBooking ?t" by code_simp
  have v: "validateBookingFormat ?t = Valid ''Ada Lovelace'' ''Friday 3pm''" by code_simp
  have s0: "sanitizeText ?t = ?t" by code_simp
  have m: "message (exampleCtx ?t) = ?t" by (simp add: exampleCtx_def)
  have s: "sanitizeText (message (exampleCtx ?t)) = ?t" unfolding m by (rule s0)
  have s': "sanitizeText (message (exampleCtx ?t)) = message (exampleCtx ?t)"
    unfolding m by (rule s0)
  have f: "patient (exampleCtx ?t) = None \<or> from_id (exampleCtx ?t) \<noteq> None"
    by (simp add: exampleCtx_def)
  note r = booking_confirmation [OF p l v s f, of emptyDatabase failingDatabase]
  note r4 = r [THEN conjunct2, THEN conjunct2, THEN conjunct2, rule_format, OF s']
  from v s0 r [THEN conjunct1] r [THEN conjunct2, THEN conjunct1] r4 show ?thesis
    by (intro conjI)
qed

text \<open>A booking whose time slot is written with an arrow: sanitization removes the \<open>>\<close>,
  the confirmation echoes the sanitized text, and the message as it was sent does not
  occur in the reply.\<close>

theorem booking_reply_echoes_sanitized_text:
  "sanitizeText ''Ada Lovelace, Fri 3pm -> 4pm'' = ''Ada Lovelace, Fri 3pm - 4pm'' \<and>
   validateBookingFormat ''Ada Lovelace, Fri 3pm - 4pm'' =
     Valid ''Ada Lovelace'' ''Fri 3pm - 4pm'' \<and>
   filter isReply (snd (safeHandler (on_text defaultEnv exampleServices) emptyDatabase
      (exampleCtx ''Ada Lovelace, Fri 3pm -> 4pm''))) =
     [Reply (getBookingReply ''Ada Lovelace, Fri 3pm - 4pm'')] \<and>
   \<not> str_includes (getBookingReply ''Ada Lovelace, Fri 3pm - 4pm'')
       ''Ada Lovelace, Fri 3pm -> 4pm''"
proof -
  let ?m = "''Ada Lovelace, Fri 3pm -> 4pm''"
  let ?t = "''Ada Lovelace, Fri 3pm - 4pm''"
  let ?re = "rx_test (literalPattern (OWNER_NAME defaultEnv))"
  have s0: "sanitizeText ?m = ?t" by code_simp
  have p: "passesShortcuts defaultEnv exampleServices ?re ?t"
    unfolding passesShortcuts_def
    by (intro conjI) (simp, code_simp, rule exampleServices_RegExp, code_simp, code_simp)
  have l: "looksLikeBooking ?t" by code_simp
  have v: "validateBookingFormat ?t = Valid ''Ada Lovelace'' ''Fri 3pm - 4pm''" by code_simp
  have m: "message (exampleCtx ?m) = ?m" by (simp add: exampleCtx_def)
  have s: "sanitizeText (message (exampleCtx ?m)) = ?t" unfolding m by (rule s0)
  have o: "on_text defaultEnv exampleServices emptyDatabase (exampleCtx ?m) =
      Inr (fst (createAppointment emptyDatabase (now_ms exampleServices)
             \<lparr>patient_id = ''patient-1'', full_name = ''Ada Lovelace'',
              preferred_datetime = ''Fri 3pm - 4pm'', telegram_user_id = 1001,
              telegram_chat_id = 1001, raw_request = ?t\<rparr>),
           [DbCall (CreateAppointment
             \<lparr>patient_id = ''patient-1'', full_name = ''Ada Lovelace'',
              preferred_datetime = ''Fri 3pm - 4pm'', telegram_user_id = 1001,
              telegram_chat_id = 1001, raw_request = ?t\<rparr>),
            Reply (getBookingReply ?t)])"
    using on_text_booking_valid [of defaultEnv exampleServices ?re "exampleCtx ?m"
        "''Ada Lovelace''" "''Fri 3pm - 4pm''" emptyDatabase, unfolded s, OF p l v]
    by (simp add: exampleCtx_def)
  have r: "filter isReply (snd (safeHandler (on_text defaultEnv exampleServices) emptyDatabase
      (exampleCtx ?m))) = [Reply (getBookingReply ?t)]"
    unfolding safeHandler_def o by simp
  have n: "\<not> str_includes (getBookingReply ?t) ?m" by code_simp
  from s0 v r n show ?thesis by (intro conjI)
qed

section \<open>The time slot of a booking\<close>


lemma classify_BookingSubmission:
  "classify ownerRegex text = BookingSubmission v \<Longrightarrow> v = validateBookingFormat text"
  by (simp add: classify_def split: if_splits)

lemma resolve_create_appointment:
  assumes "resolve env svc db ctx text i = Inr (db', es)"
    and "DbCall (CreateAppointment d) \<in> set es"
  shows "\<exists>name timeSlot p userId.
           i = BookingSubmission (Valid name timeSlot) \<and>
           patient ctx = Some p \<and> from_id ctx = Some userId \<and>
           d = \<lparr>patient_id = id' p, full_name = name, preferred_datetime = timeSlot,
                telegram_user_id = userId, telegram_chat_id = chat_id ctx,
                raw_request = text\<rparr> \<and>
           db' = fst (createAppointment db (now_ms svc) d) \<and>
           es = [DbCall (CreateAppointment d), Reply (getBookingReply text)]"
proof (cases i)
  case (BookingSubmission v)
  show ?thesis
  proof (cases v)
    case Invalid
    with BookingSubmission assms show ?thesis by auto
  next
    case (Valid name timeSlot)
    with BookingSubmission assms show ?thesis
      by (auto simp: Let_def split: option.splits)
  qed
next
  case Unrecognized
  with assms have "DbCall (CreateAppointment d) \<in> set (snd (llmTextReply svc text))"
    by auto
  then have "isAiCall (DbCall (CreateAppointment d))" by (rule llmTextReply_requests)
  then show ?thesis by simp
qed (use assms in auto)

lemma on_text_create_appointment:
  assumes "on_text env svc db ctx = Inr (db', es)"
    and "DbCall (CreateAppointment d) \<in> set es"
  shows "\<exists>name timeSlot p userId.
           validateBookingFormat (sanitizeText (message ctx)) = Valid name timeSlot \<and>
           patient ctx = Some p \<and> from_id ctx = Some userId \<and>
           d = \<lparr>patient_id = id' p, full_name = name, preferred_datetime = timeSlot,
                telegram_user_id = userId, telegram_chat_id = chat_id ctx,
                raw_request = sanitizeText (message ctx)\<rparr> \<and>
           db' = fst (createAppointment db (now_ms svc) d) \<and>
           es = [DbCall (CreateAppointment d), Reply (getBookingReply (sanitizeText (message ctx)))]"
proof -
  let ?text = "sanitizeText (message ctx)"
  have ne: "?text \<noteq> []"
  proof
    assume "?text = []"
    then have "on_text env svc db ctx = Inr (db, [])" by (rule on_text_empty)
    with assms show False by simp
  qed
  have nem: "\<not> containsEmergencyKeywords ?text"
  proof
    assume "containsEmergencyKeywords ?text"
    then have "on_text env svc db ctx = Inr (db, [ReplyMarkdown (getEmergencyResponse env)])"
      by (rule on_text_emergency)
    with assms show False by auto
  qed
  show ?thesis
  proof (cases "RegExp_i svc (OWNER_NAME env)")
    case (Inl e)
    with ne nem have "on_text env svc db ctx = Inl e" by (rule on_text_regexp_error)
    with assms show ?thesis by simp
  next
    case (Inr ownerRegex)
    from on_text_resolve [OF Inr ne, of db] assms(1)
    have "resolve env svc db ctx ?text (classify ownerRegex ?text) = Inr (db', es)" by simp
    from resolve_create_appointment [OF this assms(2)]
    obtain name timeSlot p userId where
      r: "classify ownerRegex ?text = BookingSubmission (Valid name timeSlot)"
        "patient ctx = Some p" "from_id ctx = Some userId"
        "d = \<lparr>patient_id = id' p, full_name = name, preferred_datetime = timeSlot,
              telegram_user_id = userId, telegram_chat_id = chat_id ctx,
              raw_request = ?text\<rparr>"
        "db' = fst (createAppointment db (now_ms svc) d)"
        "es = [DbCall (CreateAppointment d), Reply (getBookingReply ?text)]"
      by blast
    from r(1) have "validateBookingFormat ?text = Valid name timeSlot"
      using classify_BookingSubmission by metis
    with r show ?thesis by blast
  qed
qed

lemma createAppointment_stores:
  assumes "client db" and "fault db InsertAppointment = NoFault"
  shows "\<exists>row. appointments (fst (createAppointment db now d)) = appointments db @ [row] \<and>
           preferred_datetime row = preferred_datetime d \<and>
           raw_request row = raw_request d \<and> full_name row = full_name d \<and>
           status row = pending"
  using assms by (simp add: createAppointment_def Let_def)

text \<open>
  Claim C10. In a booking text with two or more commas, where \<open>a\<close> is the text before
  the first comma and \<open>b\<close> the text between the first and the second, the parsed name is
  \<open>a\<close> trimmed and the parsed time slot is \<open>b\<close> trimmed: what follows the second comma
  is in neither. Whenever the handler calls \<open>createAppointment\<close> for such a text, the
  \<open>preferred_datetime\<close> it passes is \<open>b\<close> trimmed and the \<open>raw_request\<close> is the whole
  text, the confirmation of the whole text is among the replies, and where the insertion
  succeeds the row that is stored has these two values.
\<close>

theorem booking_time_slot:
  assumes "text = a @ CHR '','' # b @ CHR '','' # c"
    and "CHR '','' \<notin> set a"
    and "CHR '','' \<notin> set b"
  shows "(validateBookingFormat text = Valid name timeSlot \<longrightarrow>
            name = trim a \<and> timeSlot = trim b) \<and>
         (sanitizeText (message ctx) = text \<and> on_text env svc db ctx = Inr (db', es) \<and>
          DbCall (CreateAppointment d) \<in> set es \<longrightarrow>
            preferred_datetime d = trim b \<and> raw_request d = text \<and>
            Reply (getBookingReply text) \<in> set es \<and>
            (client db \<and> fault db InsertAppointment = NoFault \<longrightarrow>
               (\<exists>row. appointments db' = appointments db @ [row] \<and>
                  preferred_datetime row = trim b \<and> raw_request row = text \<and>
                  status row = pending)))"
proof -
  have parts: "js_split (CHR '','') text = a # b # js_split (CHR '','') c"
    unfolding assms(1) using assms(2,3) by (rule js_split_two_commas)
  have v: "n = trim a \<and> t = trim b" if "validateBookingFormat text = Valid n t" for n t
    using validateBookingFormat_Valid [OF that] parts by simp
  have h: "preferred_datetime d = trim b \<and> raw_request d = text \<and>
      Reply (getBookingReply text) \<in> set es \<and>
      (client db \<and> fault db InsertAppointment = NoFault \<longrightarrow>
         (\<exists>row. appointments db' = appointments db @ [row] \<and>
            preferred_datetime row = trim b \<and> raw_request row = text \<and>
            status row = pending))"
    if s: "sanitizeText (message ctx) = text" and o: "on_text env svc db ctx = Inr (db', es)"
      and m: "DbCall (CreateAppointment d) \<in> set es"
  proof -
    from on_text_create_appointment [OF o m] s
    obtain n t and p :: patient and userId where
      r: "validateBookingFormat text = Valid n t"
        "d = \<lparr>patient_id = id' p, full_name = n, preferred_datetime = t,
              telegram_user_id = userId, telegram_chat_id = chat_id ctx,
              raw_request = text\<rparr>"
        "db' = fst (createAppointment db (now_ms svc) d)"
        "es = [DbCall (CreateAppointment d), Reply (getBookingReply text)]"
      by auto
    from v [OF r(1)] r(2) have d: "preferred_datetime d = trim b" "raw_request d = text"
      by simp_all
    have "\<exists>row. appointments db' = appointments db @ [row] \<and>
            preferred_datetime row = trim b \<and> raw_request row = text \<and> status row = pending"
      if "client db" "fault db InsertAppointment = NoFault"
      using createAppointment_stores [OF that, of "now_ms svc" d] d r(3) by auto
    with d r(4) show ?thesis by simp
  qed
  from v h show ?thesis by blast
qed

text \<open>The booking \<open>John Doe, Friday, 3pm\<close> is stored with the time slot \<open>Friday\<close> and the
  whole text as the raw request.\<close>

theorem booking_time_slot_witness:
  "validateBookingFormat ''John Doe, Friday, 3pm'' = Valid ''John Doe'' ''Friday'' \<and>
   (\<exists>db' d. on_text defaultEnv exampleServices emptyDatabase
        (exampleCtx ''John Doe, Friday, 3pm'') =
        Inr (db', [DbCall (CreateAppointment d), Reply (getBookingReply ''John Doe, Friday, 3pm'')]) \<and>
      preferred_datetime d = ''Friday'' \<and> raw_request d = ''John Doe, Friday, 3pm'' \<and>
      (\<exists>row. appointments db' = [row] \<and> preferred_datetime row = ''Friday'' \<and>
         raw_request row = ''John Doe, Friday, 3pm''))"
proof -
  let ?t = "''John Doe, Friday, 3pm''"
  let ?re = "rx_test (literalPattern (OWNER_NAME defaultEnv))"
  let ?d = "\<lparr>patient_id = ''patient-1'', full_name = ''John Doe'', preferred_datetime = ''Friday'',
             telegram_user_id = 1001, telegram_chat_id = 1001, raw_request = ?t\<rparr>"
  let ?db' = "fst (createAppointment emptyDatabase (now_ms exampleServices) ?d)"
  let ?es = "[DbCall (CreateAppointment ?d), Reply (getBookingReply ?t)]"
  have p: "passesShortcuts defaultEnv exampleServices ?re ?t"
    unfolding passesShortcuts_def
    by (intro conjI) (simp, code_simp, rule exampleServices_RegExp, code_simp, code_simp)
  have l: "looksLikeBooking ?t" by code_simp
  have v: "validateBookingFormat ?t = Valid ''John Doe'' ''Friday''" by code_simp
  have s: "sanitizeText (message (exampleCtx ?t)) = ?t"
    unfolding exampleCtx_def ctx.simps by code_simp
  have o: "on_text defaultEnv exampleServices emptyDatabase (exampleCtx ?t) = Inr (?db', ?es)"
    using on_text_booking_valid [of defaultEnv exampleServices ?re "exampleCtx ?t"
        "''John Doe''" "''Friday''" emptyDatabase, unfolded s, OF p l v]
    by (simp add: exampleCtx_def)
  have t: "trim '' Friday'' = ''Friday''" by code_simp
  have e: "?t = ''John Doe'' @ CHR '','' # '' Friday'' @ CHR '','' # '' 3pm''" by simp
  have a: "CHR '','' \<notin> set ''John Doe''" "CHR '','' \<notin> set '' Friday''" by simp_all
  have m: "DbCall (CreateAppointment ?d) \<in> set ?es" by simp
  have c: "client emptyDatabase \<and> fault emptyDatabase InsertAppointment = NoFault"
    by (simp add: emptyDatabase_def)
  note r = booking_time_slot [OF e a, of _ _ "exampleCtx ?t" defaultEnv exampleServices
      emptyDatabase ?db' ?es ?d, THEN conjunct2, rule_format, OF conjI [OF s conjI [OF o m]]]
  from r c have "\<exists>row. appointments ?db' = appointments emptyDatabase @ [row] \<and>
      preferred_datetime row = trim '' Friday'' \<and> raw_request row = ?t \<and> status row = pending"
    by blast
  then have "\<exists>row. appointments ?db' = [row] \<and> preferred_datetime row = ''Friday'' \<and>
      raw_request row = ?t"
    unfolding t by (auto simp: emptyDatabase_def)
  with o have "\<exists>db' d. on_text defaultEnv exampleServices emptyDatabase (exampleCtx ?t) =
        Inr (db', [DbCall (CreateAppointment d), Reply (getBookingReply ?t)]) \<and>
      preferred_datetime d = ''Friday'' \<and> raw_request d = ?t \<and>
      (\<exists>row. appointments db' = [row] \<and> preferred_datetime row = ''Friday'' \<and>
         raw_request row = ?t)"
    by (intro exI [of _ ?db'] exI [of _ ?d]) simp
  with v show ?thesis by (intro conjI)
qed

section \<open>The health rule\<close>

lemma health_keyword_not_emergency:
  assumes "hasHealthKeywords text" and "\<not> containsEmergencyKeywords text"
  shows "list_ex (\<lambda>k. str_includes (toLowerCase text) k)
           [''pain'', ''sick'', ''depression'', ''anxiety'', ''mental'', ''stress'',
            ''hurt'', ''feel'', ''doctor'', ''medicine'', ''treatment'']"
proof -
  from assms(1) have "text \<noteq> []" by (auto simp: hasHealthKeywords_def)
  with assms show ?thesis
    unfolding hasHealthKeywords_def containsEmergencyKeywords_def healthKeywords_def
      emergencyKeywords_def Let_def list_ex_iff
    by (simp only: if_False set_simps ball_simps bex_simps simp_thms) blast
qed

text \<open>
  Claim C6, as amended. A text that gets past the emergency rule with the keywords of
  the code (\<open>emergencyKeywords\<close>, which hold \<open>help\<close>, \<open>urgent\<close> and \<open>emergency\<close>), past the
  owner rule and the shortcut rules, that does not look like a booking and that contains
  a health keyword, gets the canned health response and is classified as a health
  concern. The health keyword it contains is then one of those that are no emergency
  keywords.
\<close>

theorem health_concern:
  assumes "passesShortcuts env svc ownerRegex text"
    and "\<not> looksLikeBooking text"
    and "hasHealthKeywords text"
    and "sanitizeText (message ctx) = text"
  shows "on_text env svc db ctx = Inr (db, [Reply getHealthResponse]) \<and>
         classify ownerRegex text = HealthConcern \<and>
         list_ex (\<lambda>k. str_includes (toLowerCase text) k)
           [''pain'', ''sick'', ''depression'', ''anxiety'', ''mental'', ''stress'',
            ''hurt'', ''feel'', ''doctor'', ''medicine'', ''treatment'']"
proof -
  have o: "on_text env svc db ctx = Inr (db, [Reply getHealthResponse])"
    using on_text_health [of env svc ownerRegex ctx db] assms by simp
  from assms(1) have a: "\<not> containsEmergencyKeywords text" "\<not> ownerRegex text"
    "toLowerCase text \<notin> set [''1'', ''book'', ''booking'', ''appointment'']"
    "toLowerCase text \<notin> set [''2'', ''faq'', ''faqs'', ''info'', ''information'']"
    "toLowerCase text \<notin> set [''3'', ''staff'', ''agent'', ''human'', ''person'']"
    unfolding passesShortcuts_def shortcutTokens_split by blast+
  have c: "classify ownerRegex text = HealthConcern"
    unfolding classify_def using a assms(2,3) by (simp only: if_False if_True)
  from o c health_keyword_not_emergency [OF assms(3) a(1)] show ?thesis by (intro conjI)
qed

text \<open>The theorem at the text \<open>I feel sick\<close>.\<close>

theorem health_concern_witness:
  "on_text defaultEnv exampleServices emptyDatabase (exampleCtx ''I feel sick'') =
     Inr (emptyDatabase, [Reply getHealthResponse]) \<and>
   classify (rx_test (literalPattern (OWNER_NAME defaultEnv))) ''I feel sick'' = HealthConcern"
proof -
  let ?t = "''I feel sick''"
  let ?re = "rx_test (literalPattern (OWNER_NAME defaultEnv))"
  have p: "passesShortcuts defaultEnv exampleServices ?re ?t"
    unfolding passesShortcuts_def
    by (intro conjI) (simp, code_simp, rule exampleServices_RegExp, code_simp, code_simp)
  have l: "\<not> looksLikeBooking ?t" by code_simp
  have h: "hasHealthKeywords ?t" by code_simp
  have s: "sanitizeText (message (exampleCtx ?t)) = ?t"
    unfolding exampleCtx_def ctx.simps by code_simp
  note r = health_concern [OF p l h s, of emptyDatabase]
  from r [THEN conjunct1] r [THEN conjunct2, THEN conjunct1] show ?thesis by (intro conjI)
qed

text \<open>The text \<open>please help me\<close> holds none of the emergency keywords that the
  specification names, does not match the owner's name, is no shortcut and no booking,
  and contains the health keyword \<open>help\<close>; the handler answers it with the emergency
  response, not with the health response.\<close>

theorem help_is_emergency_not_health:
  "\<not> list_ex (\<lambda>k. str_includes (toLowerCase ''please help me'') k) specEmergencyKeywords \<and>
   \<not> rx_test (literalPattern (OWNER_NAME defaultEnv)) ''please help me'' \<and>
   toLowerCase ''please help me'' \<notin> set shortcutTokens \<and>
   \<not> looksLikeBooking ''please help me'' \<and>
   hasHealthKeywords ''please help me'' \<and>
   on_text defaultEnv exampleServices emptyDatabase (exampleCtx ''please help me'') =
     Inr (emptyDatabase, [ReplyMarkdown (getEmergencyResponse defaultEnv)]) \<and>
   on_text defaultEnv exampleServices emptyDatabase (exampleCtx ''please help me'') \<noteq>
     Inr (emptyDatabase, [Reply getHealthResponse]) \<and>
   classify (rx_test (literalPattern (OWNER_NAME defaultEnv))) ''please help me'' =
     EmergencyConcern"
proof -
  let ?t = "''please help me''"
  have 1: "\<not> list_ex (\<lambda>k. str_includes (toLowerCase ?t) k) specEmergencyKeywords" by code_simp
  have 2: "\<not> rx_test (literalPattern (OWNER_NAME defaultEnv)) ?t" by code_simp
  have 3: "toLowerCase ?t \<notin> set shortcutTokens" by code_simp
  have 4: "\<not> looksLikeBooking ?t" by code_simp
  have 5: "hasHealthKeywords ?t" by code_simp
  have e: "containsEmergencyKeywords ?t" by code_simp
  have s: "sanitizeText (message (exampleCtx ?t)) = ?t"
    unfolding exampleCtx_def ctx.simps by code_simp
  have 6: "on_text defaultEnv exampleServices emptyDatabase (exampleCtx ?t) =
     Inr (emptyDatabase, [ReplyMarkdown (getEmergencyResponse defaultEnv)])"
    using e s on_text_emergency [of "exampleCtx ?t"] by simp
  then have 7: "on_text defaultEnv exampleServices emptyDatabase (exampleCtx ?t) \<noteq>
     Inr (emptyDatabase, [Reply getHealthResponse])"
    by simp
  have 8: "classify (rx_test (literalPattern (OWNER_NAME defaultEnv))) ?t = EmergencyConcern"
    using e by (rule classify_emergency)
  from 1 2 3 4 5 6 7 8 show ?thesis by (intro conjI)
qed

text \<open>Behind the booking rule and the health rule the handler asks \<open>llmTextReply\<close> and
  replies with its answer; and whatever the handler returns for a non-empty sanitized
  text holds exactly one reply.\<close>

lemma on_text_unrecognized:
  assumes "passesShortcuts env svc ownerRegex (sanitizeText (message ctx))"
    and "\<not> looksLikeBooking (sanitizeText (message ctx))"
    and "\<not> hasHealthKeywords (sanitizeText (message ctx))"
  shows "on_text env svc db ctx =
     Inr (db, snd (llmTextReply svc (sanitizeText (message ctx))) @
              [Reply (fst (llmTextReply svc (sanitizeText (message ctx))))])"
  unfolding on_text_passesShortcuts [OF assms(1)] Let_def using assms(2,3)
  by (simp add: split_beta)

lemma on_text_one_reply:
  assumes "sanitizeText (message ctx) \<noteq> []"
    and "on_text env svc db ctx = Inr (db', es)"
  shows "length (filter isReply es) = 1"
proof (cases "containsEmergencyKeywords (sanitizeText (message ctx))")
  case True
  from on_text_emergency [OF True, of env svc db] assms(2) show ?thesis by simp
next
  case False
  show ?thesis
  proof (cases "RegExp_i svc (OWNER_NAME env)")
    case (Inl e)
    from on_text_regexp_error [OF assms(1) False Inl, of db] assms(2) show ?thesis by simp
  next
    case (Inr ownerRegex)
    have "resolve env svc db ctx (sanitizeText (message ctx))
            (classify ownerRegex (sanitizeText (message ctx))) = Inr (db', es)"
      using on_text_resolve [OF Inr assms(1), of db] assms(2) by simp
    then show ?thesis by (rule resolve_one_reply)
  qed
qed

text \<open>
  Claim C3, as amended. The handler for text messages applies its rules in order to the
  sanitized text of the message, and the first rule that matches decides. An empty
  sanitized text gets no intent and no reply. A text with an emergency keyword gets the
  emergency response. For every other text the owner's name is compiled as a regular
  expression: if that throws, the handler throws (and \<open>safeHandler\<close> sends the generic
  error message), so the text gets no intent; otherwise the text gets, in this order, the
  owner's profile, the booking instructions, the FAQ menu, the staff message, the outcome
  of the booking rule, the health response, or else, as unrecognized, the answer of
  \<open>llmTextReply\<close>. With a well-formed owner expression the handler does what \<open>resolve\<close> does for the intent
  that \<open>classify\<close> gives the text. Whenever the handler returns for a non-empty sanitized
  text, the chat gets exactly one reply.
\<close>

theorem classification_first_match:
  assumes t: "sanitizeText (message ctx) = text"
  shows
   "(text = [] \<longrightarrow> on_text env svc db ctx = Inr (db, [])) \<and>
    (containsEmergencyKeywords text \<longrightarrow>
       on_text env svc db ctx = Inr (db, [ReplyMarkdown (getEmergencyResponse env)])) \<and>
    (text \<noteq> [] \<and> \<not> containsEmergencyKeywords text \<longrightarrow>
       (RegExp_i svc (OWNER_NAME env) = Inl e \<longrightarrow>
          on_text env svc db ctx = Inl e \<and>
          safeHandler (on_text env svc) db ctx = (db, [Reply getErrorMessage])) \<and>
       (RegExp_i svc (OWNER_NAME env) = Inr ownerRegex \<longrightarrow>
          (ownerRegex text \<longrightarrow>
             on_text env svc db ctx = Inr (db, [Reply (getOwnerProfile env)])) \<and>
          (\<not> ownerRegex text \<longrightarrow>
             (toLowerCase text \<in> set [''1'', ''book'', ''booking'', ''appointment''] \<longrightarrow>
                on_text env svc db ctx = Inr (db, [Reply getBookingInstructions])) \<and>
             (toLowerCase text \<notin> set [''1'', ''book'', ''booking'', ''appointment''] \<and>
              toLowerCase text \<in> set [''2'', ''faq'', ''faqs'', ''info'', ''information''] \<longrightarrow>
                on_text env svc db ctx = Inr (db, [Reply getFAQMenu])) \<and>
             (toLowerCase text \<notin> set [''1'', ''book'', ''booking'', ''appointment''] \<and>
              toLowerCase text \<notin> set [''2'', ''faq'', ''faqs'', ''info'', ''information''] \<and>
              toLowerCase text \<in> set [''3'', ''staff'', ''agent'', ''human'', ''person''] \<longrightarrow>
                on_text env svc db ctx = Inr (db, [Reply getStaffConnectionMessage])) \<and>
             (toLowerCase text \<notin> set [''1'', ''book'', ''booking'', ''appointment''] \<and>
              toLowerCase text \<notin> set [''2'', ''faq'', ''faqs'', ''info'', ''information''] \<and>
              toLowerCase text \<notin> set [''3'', ''staff'', ''agent'', ''human'', ''person''] \<longrightarrow>
                (looksLikeBooking text \<and> validateBookingFormat text = Invalid \<longrightarrow>
                   on_text env svc db ctx = Inr (db, [Reply getInvalidBookingMessage])) \<and>
                (looksLikeBooking text \<and> validateBookingFormat text = Valid name timeSlot \<longrightarrow>
                   on_text env svc db ctx =
                     (case patient ctx of
                        None \<Rightarrow> Inr (db, [Reply (getBookingReply text)])
                      | Some p \<Rightarrow>
                          (case from_id ctx of
                             None \<Rightarrow> Inl TypeError
                           | Some userId \<Rightarrow>
                               Inr (fst (createAppointment db (now_ms svc)
                                      \<lparr>patient_id = id' p, full_name = name,
                                       preferred_datetime = timeSlot,
                                       telegram_user_id = userId,
                                       telegram_chat_id = chat_id ctx,
                                       raw_request = text\<rparr>),
                                    [DbCall (CreateAppointment
                                      \<lparr>patient_id = id' p, full_name = name,
                                       preferred_datetime = timeSlot,
                                       telegram_user_id = userId,
                                       telegram_chat_id = chat_id ctx,
                                       raw_request = text\<rparr>),
                                     Reply (getBookingReply text)])))) \<and>
                (\<not> looksLikeBooking text \<and> hasHealthKeywords text \<longrightarrow>
                   on_text env svc db ctx = Inr (db, [Reply getHealthResponse])) \<and>
                (\<not> looksLikeBooking text \<and> \<not> hasHealthKeywords text \<longrightarrow>
                   on_text env svc db ctx =
                     Inr (db, snd (llmTextReply svc text) @
                              [Reply (fst (llmTextReply svc text))])))) \<and>
          on_text env svc db ctx = resolve env svc db ctx text (classify ownerRegex text))) \<and>
    (text \<noteq> [] \<and> on_text env svc db ctx = Inr (db', es) \<longrightarrow>
       length (filter isReply es) = 1)"
proof -
  have c0: "text = [] \<longrightarrow> on_text env svc db ctx = Inr (db, [])"
    unfolding t [symmetric] using on_text_empty by blast
  have c1: "containsEmergencyKeywords text \<longrightarrow>
       on_text env svc db ctx = Inr (db, [ReplyMarkdown (getEmergencyResponse env)])"
    unfolding t [symmetric] using on_text_emergency by blast
  have c10: "text \<noteq> [] \<and> on_text env svc db ctx = Inr (db', es) \<longrightarrow>
       length (filter isReply es) = 1"
    unfolding t [symmetric] using on_text_one_reply by blast
  have c2: "(RegExp_i svc (OWNER_NAME env) = Inl e \<longrightarrow>
          on_text env svc db ctx = Inl e \<and>
          safeHandler (on_text env svc) db ctx = (db, [Reply getErrorMessage]))"
    if "text \<noteq> []" "\<not> containsEmergencyKeywords text"
  proof
    assume "RegExp_i svc (OWNER_NAME env) = Inl e"
    with that have "on_text env svc db ctx = Inl e"
      unfolding t [symmetric] by (rule on_text_regexp_error)
    then show "on_text env svc db ctx = Inl e \<and>
          safeHandler (on_text env svc) db ctx = (db, [Reply getErrorMessage])"
      by (simp add: safeHandler_def)
  qed
  have c3: "(ownerRegex text \<longrightarrow>
             on_text env svc db ctx = Inr (db, [Reply (getOwnerProfile env)])) \<and>
      on_text env svc db ctx = resolve env svc db ctx text (classify ownerRegex text)"
    if "text \<noteq> []" "\<not> containsEmergencyKeywords text"
      "RegExp_i svc (OWNER_NAME env) = Inr ownerRegex"
    using that on_text_owner [where ctx=ctx and env=env and svc=svc and ownerRegex=ownerRegex and db=db]
      on_text_resolve [where ctx=ctx and env=env and svc=svc and ownerRegex=ownerRegex and db=db]
    unfolding t [symmetric] by blast
  have c4: "(toLowerCase text \<in> set [''1'', ''book'', ''booking'', ''appointment''] \<longrightarrow>
                on_text env svc db ctx = Inr (db, [Reply getBookingInstructions])) \<and>
             (toLowerCase text \<notin> set [''1'', ''book'', ''booking'', ''appointment''] \<and>
              toLowerCase text \<in> set [''2'', ''faq'', ''faqs'', ''info'', ''information''] \<longrightarrow>
                on_text env svc db ctx = Inr (db, [Reply getFAQMenu])) \<and>
             (toLowerCase text \<notin> set [''1'', ''book'', ''booking'', ''appointment''] \<and>
              toLowerCase text \<notin> set [''2'', ''faq'', ''faqs'', ''info'', ''information''] \<and>
              toLowerCase text \<in> set [''3'', ''staff'', ''agent'', ''human'', ''person''] \<longrightarrow>
                on_text env svc db ctx = Inr (db, [Reply getStaffConnectionMessage]))"
    if "text \<noteq> []" "\<not> containsEmergencyKeywords text"
      "RegExp_i svc (OWNER_NAME env) = Inr ownerRegex" "\<not> ownerRegex text"
    using that on_text_booking_instructions [where ctx=ctx and env=env and svc=svc and ownerRegex=ownerRegex and db=db]
      on_text_faq [where ctx=ctx and env=env and svc=svc and ownerRegex=ownerRegex and db=db] on_text_staff [where ctx=ctx and env=env and svc=svc and ownerRegex=ownerRegex and db=db]
    unfolding t [symmetric] by blast
  have c5: "(looksLikeBooking text \<and> validateBookingFormat text = Invalid \<longrightarrow>
                   on_text env svc db ctx = Inr (db, [Reply getInvalidBookingMessage])) \<and>
                (looksLikeBooking text \<and> validateBookingFormat text = Valid name timeSlot \<longrightarrow>
                   on_text env svc db ctx =
                     (case patient ctx of
                        None \<Rightarrow> Inr (db, [Reply (getBookingReply text)])
                      | Some p \<Rightarrow>
                          (case from_id ctx of
                             None \<Rightarrow> Inl TypeError
                           | Some userId \<Rightarrow>
                               Inr (fst (createAppointment db (now_ms svc)
                                      \<lparr>patient_id = id' p, full_name = name,
                                       preferred_datetime = timeSlot,
                                       telegram_user_id = userId,
                                       telegram_chat_id = chat_id ctx,
                                       raw_request = text\<rparr>),
                                    [DbCall (CreateAppointment
                                      \<lparr>patient_id = id' p, full_name = name,
                                       preferred_datetime = timeSlot,
                                       telegram_user_id = userId,
                                       telegram_chat_id = chat_id ctx,
                                       raw_request = text\<rparr>),
                                     Reply (getBookingReply text)])))) \<and>
                (\<not> looksLikeBooking text \<and> hasHealthKeywords text \<longrightarrow>
                   on_text env svc db ctx = Inr (db, [Reply getHealthResponse])) \<and>
                (\<not> looksLikeBooking text \<and> \<not> hasHealthKeywords text \<longrightarrow>
                   on_text env svc db ctx =
                     Inr (db, snd (llmTextReply svc text) @
                              [Reply (fst (llmTextReply svc text))]))"
    if "text \<noteq> []" "\<not> containsEmergencyKeywords text"
      "RegExp_i svc (OWNER_NAME env) = Inr ownerRegex" "\<not> ownerRegex text"
      "toLowerCase text \<notin> set [''1'', ''book'', ''booking'', ''appointment'']"
      "toLowerCase text \<notin> set [''2'', ''faq'', ''faqs'', ''info'', ''information'']"
      "toLowerCase text \<notin> set [''3'', ''staff'', ''agent'', ''human'', ''person'']"
  proof -
    have p: "passesShortcuts env svc ownerRegex (sanitizeText (message ctx))"
      unfolding passesShortcuts_def shortcutTokens_split t using that by blast
    have i: "\<not> valid (validateBookingFormat (sanitizeText (message ctx)))"
      if "validateBookingFormat text = Invalid"
      unfolding t that by simp
    show ?thesis
      using on_text_booking_invalid [OF p, of db] i
        on_text_booking_valid [OF p, of name timeSlot db]
        on_text_health [OF p, of db] on_text_unrecognized [OF p, of db]
      unfolding t by blast
  qed
  from c0 c1 c2 c3 c4 c5 c10 show ?thesis by blast
qed

text \<open>A greeting that no rule matches is unrecognized, and without a model client the reply
  is the fixed text of \<open>llmTextReply\<close>; the text \<open>2\<close> gets the FAQ menu; the empty message
  gets nothing.\<close>

theorem classification_first_match_witness:
  "on_text defaultEnv exampleServices emptyDatabase (exampleCtx ''hello there'') =
     Inr (emptyDatabase,
          [Reply ''I'm currently unable to process your request. Please contact our staff directly for assistance.'']) \<and>
   classify (rx_test (literalPattern (OWNER_NAME defaultEnv))) ''hello there'' = Unrecognized \<and>
   on_text defaultEnv exampleServices emptyDatabase (exampleCtx ''2'') =
     Inr (emptyDatabase, [Reply getFAQMenu]) \<and>
   classify (rx_test (literalPattern (OWNER_NAME defaultEnv))) ''2'' = FAQMenu \<and>
   on_text defaultEnv exampleServices emptyDatabase (exampleCtx '''') = Inr (emptyDatabase, [])"
proof -
  let ?re = "rx_test (literalPattern (OWNER_NAME defaultEnv))"
  let ?h = "''hello there''"
  have s: "sanitizeText (message (exampleCtx ?h)) = ?h"
    unfolding exampleCtx_def ctx.simps by code_simp
  have s2: "sanitizeText (message (exampleCtx ''2'')) = ''2''"
    unfolding exampleCtx_def ctx.simps by code_simp
  have s0: "sanitizeText (message (exampleCtx '''')) = ''''"
    unfolding exampleCtx_def ctx.simps by code_simp
  have h: "?h \<noteq> [] \<and> \<not> containsEmergencyKeywords ?h" by code_simp
  have h1: "\<not> ?re ?h" by code_simp
  have h2: "toLowerCase ?h \<notin> set [''1'', ''book'', ''booking'', ''appointment''] \<and>
      toLowerCase ?h \<notin> set [''2'', ''faq'', ''faqs'', ''info'', ''information''] \<and>
      toLowerCase ?h \<notin> set [''3'', ''staff'', ''agent'', ''human'', ''person'']"
    by code_simp
  have h3: "\<not> looksLikeBooking ?h \<and> \<not> hasHealthKeywords ?h" by code_simp
  have l: "llmTextReply exampleServices ?h =
    (''I'm currently unable to process your request. Please contact our staff directly for assistance.'', [])"
    by (simp add: llmTextReply_def exampleServices_def)
  have c: "classify ?re ?h = Unrecognized" by code_simp
  have t: "''2'' \<noteq> [] \<and> \<not> containsEmergencyKeywords ''2''" by code_simp
  have t1: "\<not> ?re ''2''" by code_simp
  have t2: "toLowerCase ''2'' \<notin> set [''1'', ''book'', ''booking'', ''appointment''] \<and>
      toLowerCase ''2'' \<in> set [''2'', ''faq'', ''faqs'', ''info'', ''information'']"
    by code_simp
  have c2: "classify ?re ''2'' = FAQMenu" by code_simp
  note r = classification_first_match [OF s, of defaultEnv exampleServices emptyDatabase _ ?re,
      THEN conjunct2, THEN conjunct2, THEN conjunct1, rule_format, OF h,
      THEN conjunct2, rule_format, OF exampleServices_RegExp]
  note ru = r [THEN conjunct2, THEN conjunct1, rule_format, OF h1,
      THEN conjunct2, THEN conjunct2, THEN conjunct2, rule_format, OF h2,
      THEN conjunct2, THEN conjunct2, THEN conjunct2, rule_format, OF h3]
  note q = classification_first_match [OF s2, of defaultEnv exampleServices emptyDatabase _ ?re,
      THEN conjunct2, THEN conjunct2, THEN conjunct1, rule_format, OF t,
      THEN conjunct2, rule_format, OF exampleServices_RegExp]
  note qu = q [THEN conjunct2, THEN conjunct1, rule_format, OF t1,
      THEN conjunct2, THEN conjunct1, rule_format, OF t2]
  note e = classification_first_match [OF s0, of defaultEnv exampleServices emptyDatabase,
      THEN conjunct1, rule_format, OF refl]
  have 1: "on_text defaultEnv exampleServices emptyDatabase (exampleCtx ?h) =
     Inr (emptyDatabase,
          [Reply ''I'm currently unable to process your request. Please contact our staff directly for assistance.''])"
    unfolding ru l by simp
  from 1 c qu c2 e show ?thesis by (intro conjI)
qed

text \<open>Two messages that get no intent. Sanitization removes all of \<open><>\<close>, so the handler
  returns without a reply. And where the owner's name is \<open>Dr. (Kunle\<close>, whose parenthesis
  is never closed, compiling it throws a syntax error: the greeting, which sanitization
  leaves as it is, is answered with the generic error message.\<close>

theorem markup_only_message_gets_no_intent:
  "sanitizeText ''<>'' = [] \<and>
   on_text defaultEnv exampleServices emptyDatabase (exampleCtx ''<>'') =
     Inr (emptyDatabase, []) \<and>
   safeHandler (on_text defaultEnv exampleServices) emptyDatabase (exampleCtx ''<>'') =
     (emptyDatabase, []) \<and>
   sanitizeText ''hello there'' = ''hello there'' \<and>
   on_text (defaultEnv\<lparr>OWNER_NAME := ''Dr. (Kunle''\<rparr>)
     (exampleServices\<lparr>RegExp_i := \<lambda>pattern. Inl SyntaxError\<rparr>) emptyDatabase
     (exampleCtx ''hello there'') = Inl SyntaxError \<and>
   safeHandler (on_text (defaultEnv\<lparr>OWNER_NAME := ''Dr. (Kunle''\<rparr>)
     (exampleServices\<lparr>RegExp_i := \<lambda>pattern. Inl SyntaxError\<rparr>)) emptyDatabase
     (exampleCtx ''hello there'') = (emptyDatabase, [Reply getErrorMessage])"
proof -
  let ?env = "defaultEnv\<lparr>OWNER_NAME := ''Dr. (Kunle''\<rparr>"
  let ?svc = "exampleServices\<lparr>RegExp_i := \<lambda>pattern. Inl SyntaxError\<rparr>"
  have s: "sanitizeText ''<>'' = []" by code_simp
  have m: "sanitizeText (message (exampleCtx ''<>'')) = []"
    unfolding exampleCtx_def ctx.simps by (rule s)
  have 1: "on_text defaultEnv exampleServices emptyDatabase (exampleCtx ''<>'') =
     Inr (emptyDatabase, [])"
    using m by (rule on_text_empty)
  have 2: "safeHandler (on_text defaultEnv exampleServices) emptyDatabase (exampleCtx ''<>'') =
     (emptyDatabase, [])"
    unfolding safeHandler_def 1 by simp
  have h: "sanitizeText ''hello there'' = ''hello there''" by code_simp
  have hm: "sanitizeText (message (exampleCtx ''hello there'')) = ''hello there''"
    unfolding exampleCtx_def ctx.simps by (rule h)
  have ne: "sanitizeText (message (exampleCtx ''hello there'')) \<noteq> []"
    unfolding hm by simp
  have em: "\<not> containsEmergencyKeywords (sanitizeText (message (exampleCtx ''hello there'')))"
    unfolding hm by code_simp
  have r: "RegExp_i ?svc (OWNER_NAME ?env) = Inl SyntaxError" by simp
  have 3: "on_text ?env ?svc emptyDatabase (exampleCtx ''hello there'') = Inl SyntaxError"
    using ne em r by (rule on_text_regexp_error)
  have 4: "safeHandler (on_text ?env ?svc) emptyDatabase (exampleCtx ''hello there'') =
      (emptyDatabase, [Reply getErrorMessage])"
    unfolding safeHandler_def 3 by simp
  from s 1 2 h 3 4 show ?thesis by (intro conjI)
qed

section \<open>The gate in front of the reports\<close>

lemma isAuthorizedMD_iff:
  "isAuthorizedMD env userId \<longleftrightarrow> MD_TELEGRAM_USER_ID env = Some userId \<and> userId \<noteq> 0"
  by (auto simp: isAuthorizedMD_def split: option.splits)

lemma md_commands_unauthorized:
  assumes "from_id ctx = Some userId" and "\<not> isAuthorizedMD env userId"
  shows "md_brief env svc db ctx = Inr (db, [Reply unauthorizedMessage])"
    and "md_followups env svc db ctx = Inr (db, [Reply unauthorizedMessage])"
  using assms by (simp_all add: md_brief_def md_followups_def)

lemma md_endpoints_not_configured:
  assumes "mdNotConfigured env"
  shows "get_md_brief env svc db req =
           (\<lparr>statusCode = 403, body = ErrorBody ''Unauthorized - MD access not configured''\<rparr>, [])"
    and "get_md_followups env svc db req =
           (\<lparr>statusCode = 403, body = ErrorBody ''Unauthorized - MD access not configured''\<rparr>, [])"
  using assms by (simp_all add: get_md_brief_def get_md_followups_def)

lemma md_endpoints_configured:
  assumes "\<not> mdNotConfigured env"
  shows "statusCode (fst (get_md_brief env svc db req)) = 200"
    and "snd (get_md_brief env svc db req) = [DbCall GetDailyBrief]"
    and "statusCode (fst (get_md_followups env svc db req)) = 200"
    and "snd (get_md_followups env svc db req) = [DbCall (GetFollowupAppointments 20)]"
  using assms by (simp_all add: get_md_brief_def get_md_followups_def Let_def)

text \<open>A command without sender: reading the sender's id throws, and \<open>safeHandler\<close> sends
  the generic error message; the storage module is not called.\<close>

lemma md_commands_without_sender:
  assumes "from_id ctx = None"
  shows "safeHandler (md_brief env svc) db ctx = (db, [Reply getErrorMessage])"
    and "safeHandler (md_followups env svc) db ctx = (db, [Reply getErrorMessage])"
  using assms by (simp_all add: md_brief_def md_followups_def safeHandler_def)

text \<open>
  Claim C2. The reports are for the administrator only: the endpoints
  \<open>GET /api/md/brief\<close> and \<open>GET /api/md/followups\<close> should enforce the gate of the commands
  \<open>md_brief\<close> and \<open>md_followups\<close>, answering a requester who is not the configured
  administrator with the fixed refusal and without a call of the storage module. They do
  not: with administrator 42 configured, the commands of sender 1001 get the unauthorized
  reply and call nothing, whereas a request to either endpoint that carries no
  credentials at all is answered with status 200 from one call of the storage module. The
  endpoints test that an administrator is configured, not who the requester is.
\<close>

theorem md_endpoints_open_to_any_requester:
  "MD_TELEGRAM_USER_ID (defaultEnv\<lparr>MD_TELEGRAM_USER_ID := Some 42\<rparr>) = Some 42 \<and>
   from_id (exampleCtx ''/md_brief'') = Some 1001 \<and>
   safeHandler (md_brief (defaultEnv\<lparr>MD_TELEGRAM_USER_ID := Some 42\<rparr>) exampleServices)
     emptyDatabase (exampleCtx ''/md_brief'') = (emptyDatabase, [Reply unauthorizedMessage]) \<and>
   safeHandler (md_followups (defaultEnv\<lparr>MD_TELEGRAM_USER_ID := Some 42\<rparr>) exampleServices)
     emptyDatabase (exampleCtx ''/md_followups'') = (emptyDatabase, [Reply unauthorizedMessage]) \<and>
   statusCode (fst (get_md_brief (defaultEnv\<lparr>MD_TELEGRAM_USER_ID := Some 42\<rparr>)
     exampleServices emptyDatabase \<lparr>authorization = None\<rparr>)) = 200 \<and>
   snd (get_md_brief (defaultEnv\<lparr>MD_TELEGRAM_USER_ID := Some 42\<rparr>)
     exampleServices emptyDatabase \<lparr>authorization = None\<rparr>) = [DbCall GetDailyBrief] \<and>
   statusCode (fst (get_md_followups (defaultEnv\<lparr>MD_TELEGRAM_USER_ID := Some 42\<rparr>)
     exampleServices emptyDatabase \<lparr>authorization = None\<rparr>)) = 200 \<and>
   snd (get_md_followups (defaultEnv\<lparr>MD_TELEGRAM_USER_ID := Some 42\<rparr>)
     exampleServices emptyDatabase \<lparr>authorization = None\<rparr>) =
     [DbCall (GetFollowupAppointments 20)]"
proof -
  let ?env = "defaultEnv\<lparr>MD_TELEGRAM_USER_ID := Some 42\<rparr>"
  have m: "MD_TELEGRAM_USER_ID ?env = Some 42" by simp
  have f: "from_id (exampleCtx ''/md_brief'') = Some 1001"
    "from_id (exampleCtx ''/md_followups'') = Some 1001"
    by (simp_all add: exampleCtx_def)
  have n: "\<not> isAuthorizedMD ?env 1001" by (simp add: isAuthorizedMD_iff)
  have c1: "safeHandler (md_brief ?env exampleServices) emptyDatabase (exampleCtx ''/md_brief'') =
      (emptyDatabase, [Reply unauthorizedMessage])"
    using md_commands_unauthorized(1) [OF f(1) n] by (simp add: safeHandler_def)
  have c2: "safeHandler (md_followups ?env exampleServices) emptyDatabase
      (exampleCtx ''/md_followups'') = (emptyDatabase, [Reply unauthorizedMessage])"
    using md_commands_unauthorized(2) [OF f(2) n] by (simp add: safeHandler_def)
  have "\<not> mdNotConfigured ?env" by (simp add: mdNotConfigured_def defaultEnv_def)
  note e = md_endpoints_configured [OF this, of exampleServices emptyDatabase
      "\<lparr>authorization = None\<rparr>"]
  from m f(1) c1 c2 e show ?thesis by (intro conjI)
qed

section \<open>Media analysis\<close>














section \<open>The daily brief\<close>

text \<open>Each count of the brief is zero where its query fails, the brief is the zero brief
  without a client, after an exception and on empty tables.\<close>

lemma getDailyBrief_defaults:
  "\<not> client db \<Longrightarrow> getDailyBrief db day date = zeroBrief"
  "fault db SelectFaqs = ErrorResult \<Longrightarrow> faqs (getDailyBrief db day date) = 0"
  "fault db SelectFaqs = Exception \<Longrightarrow> getDailyBrief db day date = zeroBrief"
  "chat_logs db = [] \<Longrightarrow> appointments db = [] \<Longrightarrow> getDailyBrief db day date = zeroBrief"
  by (auto simp: getDailyBrief_def select_def rowCount_def zeroBrief_def Let_def
      split: option.splits sum.splits fault.splits)

text \<open>
  Claim C8. The count of FAQs of the daily brief should be the number of chat logs of the
  day whose text contains \<open>faq\<close> or \<open>question\<close> in any case. \<open>getDailyBrief\<close> filters on
  \<open>%faq%\<close> alone: on a day whose one chat log is \<open>I have a question\<close>, inside the window of
  the day, it counts one chat and no FAQ.
\<close>

theorem daily_brief_misses_question:
  "dayStart (today exampleServices) \<le> 1793620800000000 \<and>
   1793620800000000 \<le> dayEnd (today exampleServices) \<and>
   str_includes (toLowerCase ''I have a question'') ''question'' \<and>
   chats (getDailyBrief questionDatabase (today exampleServices) None) = 1 \<and>
   faqs (getDailyBrief questionDatabase (today exampleServices) None) = 0"
proof -
  have t: "today exampleServices = 20759" by (simp add: today_def exampleServices_def)
  have 1: "dayStart 20759 \<le> 1793620800000000" "1793620800000000 \<le> dayEnd 20759"
    by (simp_all add: dayStart_def dayEnd_def)
  have 2: "str_includes (toLowerCase ''I have a question'') ''question''" by code_simp
  have 3: "\<not> ilike_contains ''I have a question'' ''faq''" by code_simp
  have 4: "getDailyBrief questionDatabase 20759 None =
      \<lparr>chats = 1, bookings = 0, cancels = 0, faqs = 0\<rparr>"
    using 1 3 by (simp add: getDailyBrief_def questionDatabase_def select_def rowCount_def Let_def)
  from 1 2 4 show ?thesis unfolding t by simp
qed

end
